theory Spec2Isabelle
  imports Complex_Main "HOL-Library.Word" "HOL-Library.Char_ord" "HOL-Library.List_Lexorder"
begin

section \<open>Electronics Store API: the handlers of main.py over a document store\<close>

text \<open>
  The development embeds the request handlers of \<^verbatim>\<open>src/main.py\<close>:
  \<^verbatim>\<open>serialize_product\<close>, \<^verbatim>\<open>seed_products\<close>, \<^verbatim>\<open>list_products\<close>, \<^verbatim>\<open>get_product\<close>,
  \<^verbatim>\<open>create_product\<close> and \<^verbatim>\<open>list_categories\<close>, together with the pydantic models
  \<^verbatim>\<open>ProductIn\<close> and \<^verbatim>\<open>ProductOut\<close>.

  Conventions of the embedding.
  \<^item> A Python \<^verbatim>\<open>str\<close> is a \<open>string\<close>; a character is a code point below 256, and the order
    on strings is the lexicographic order on code points, as Python compares \<^verbatim>\<open>str\<close>.
  \<^item> A price is a Python \<^verbatim>\<open>float\<close>. The handlers never do arithmetic on prices: they only
    copy and compare them, so a finite float is represented by its exact rational value.
    The IEEE values NaN and infinity are outside the model.
  \<^item> A dictionary with the six product keys (a JSON request body, the keyword arguments of
    a pydantic model, a stored document) is a record of \<open>entry\<close> values: a key is absent,
    or bound to \<^verbatim>\<open>None\<close>/\<^verbatim>\<open>null\<close>, or bound to a value of the type the key has in
    \<^verbatim>\<open>ProductIn\<close>. Values of a wrong type are excluded by the type.
  \<^item> The global \<^verbatim>\<open>db\<close> is an explicit argument of every handler, \<open>None\<close> when
    \<^verbatim>\<open>db is None\<close>. A handler returns its result together with the store it leaves.
  \<^item> An exception is a value: \<open>Inl\<close> of a sum type.
\<close>

subsection \<open>Exceptions and HTTP errors\<close>

datatype exn =
    ValidationError "string list"  \<comment> \<open>pydantic: the offending fields, in field order\<close>
  | ServerSelectionTimeoutError    \<comment> \<open>driver: the server does not answer\<close>
  | OperationFailure               \<comment> \<open>driver: the server rejects the query\<close>
  | DuplicateKeyError              \<comment> \<open>driver: \<^verbatim>\<open>_id\<close> already in the collection\<close>
  | DatabaseNotAvailable           \<comment> \<open>store client called without a connection\<close>

datatype http_error =
    HTTPException nat string              \<comment> \<open>raised by a handler: status code, detail\<close>
  | RequestValidationError "string list"  \<comment> \<open>the framework rejects the request body\<close>
  | Unhandled exn                         \<comment> \<open>an exception leaves the handler uncaught\<close>

text \<open>
  The status line of a response. The application installs no exception handler of its
  own, so the framework's defaults apply: a request body that fails validation is
  answered with 422, an exception that leaves the handler with 500.
\<close>

fun status_code :: "http_error + 'a \<Rightarrow> nat" where
  "status_code (Inr _) = 200"
| "status_code (Inl (HTTPException c _)) = c"
| "status_code (Inl (RequestValidationError _)) = 422"
| "status_code (Inl (Unhandled _)) = 500"

fun validation_fields :: "http_error \<Rightarrow> string list" where
  "validation_fields (RequestValidationError fs) = fs"
| "validation_fields (Unhandled (ValidationError fs)) = fs"
| "validation_fields _ = []"

subsection \<open>Dictionaries with the product keys\<close>

datatype 'a entry = Missing | Null | Val 'a

type_synonym price_t = rat

record product_dict =
  d_title :: "string entry"
  d_description :: "string entry"
  d_price :: "price_t entry"
  d_category :: "string entry"
  d_in_stock :: "bool entry"
  d_image :: "string entry"

text \<open>\<^verbatim>\<open>doc.get(key)\<close>: an absent key reads as \<^verbatim>\<open>None\<close>.\<close>

fun get :: "'a entry \<Rightarrow> 'a entry" where
  "get Missing = Null"
| "get e = e"

text \<open>\<^verbatim>\<open>doc.get(key, default)\<close>: only an absent key reads as the default.\<close>

fun get_default :: "'a entry \<Rightarrow> 'a \<Rightarrow> 'a entry" where
  "get_default Missing d = Val d"
| "get_default e d = e"

subsection \<open>The pydantic models ProductIn and ProductOut (main.py, lines 22 to 32)\<close>

record ProductIn =
  title :: string
  description :: "string option"
  price :: price_t
  category :: string
  in_stock :: bool
  image :: "string option"

record ProductOut = ProductIn +
  pid :: string  \<comment> \<open>the field \<^verbatim>\<open>id\<close>\<close>

text \<open>
  Validation of one field. \<open>required_str\<close> is \<^verbatim>\<open>str = Field(...)\<close>, \<open>optional_str\<close> is
  \<^verbatim>\<open>Optional[str] = Field(None)\<close>, \<open>price_ge0\<close> is \<^verbatim>\<open>float = Field(..., ge=0)\<close> and
  \<open>bool_default_true\<close> is \<^verbatim>\<open>bool = Field(True)\<close>. The result is \<open>None\<close> when the field
  is rejected.
\<close>

fun required_str :: "string entry \<Rightarrow> string option" where
  "required_str (Val s) = Some s"
| "required_str _ = None"

fun optional_str :: "string entry \<Rightarrow> string option option" where
  "optional_str (Val s) = Some (Some s)"
| "optional_str _ = Some None"

fun price_ge0 :: "price_t entry \<Rightarrow> price_t option" where
  "price_ge0 (Val p) = (if 0 \<le> p then Some p else None)"
| "price_ge0 _ = None"

fun bool_default_true :: "bool entry \<Rightarrow> bool option" where
  "bool_default_true Missing = Some True"
| "bool_default_true Null = None"
| "bool_default_true (Val b) = Some b"

text \<open>The fields a model rejects, in the order the fields are declared.\<close>

definition ProductIn_errors :: "product_dict \<Rightarrow> string list" where
  "ProductIn_errors d =
     (if required_str (d_title d) = None then [''title''] else []) @
     (if optional_str (d_description d) = None then [''description''] else []) @
     (if price_ge0 (d_price d) = None then [''price''] else []) @
     (if required_str (d_category d) = None then [''category''] else []) @
     (if bool_default_true (d_in_stock d) = None then [''in_stock''] else []) @
     (if optional_str (d_image d) = None then [''image''] else [])"

text \<open>
  Constructing (or parsing a request body into) a \<^verbatim>\<open>ProductIn\<close>: every field is
  validated; if any is rejected, a \<^verbatim>\<open>ValidationError\<close> lists the rejected fields.
\<close>

definition ProductIn_validate :: "product_dict \<Rightarrow> string list + ProductIn" where
  "ProductIn_validate d =
     (case (required_str (d_title d), optional_str (d_description d), price_ge0 (d_price d),
            required_str (d_category d), bool_default_true (d_in_stock d),
            optional_str (d_image d)) of
        (Some t, Some de, Some p, Some c, Some s, Some i) \<Rightarrow>
          Inr \<lparr>title = t, description = de, price = p, category = c, in_stock = s, image = i\<rparr>
      | _ \<Rightarrow> Inl (ProductIn_errors d))"

text \<open>\<^verbatim>\<open>ProductOut(id=..., title=..., ...)\<close>: the inherited fields are validated as in
  \<^verbatim>\<open>ProductIn\<close>; \<^verbatim>\<open>id\<close> is given a \<^verbatim>\<open>str\<close> and is always accepted.\<close>

definition ProductOut_validate :: "string \<Rightarrow> product_dict \<Rightarrow> exn + ProductOut" where
  "ProductOut_validate i d =
     (case ProductIn_validate d of
        Inl fs \<Rightarrow> Inl (ValidationError fs)
      | Inr v \<Rightarrow> Inr (ProductIn.extend v (ProductOut.fields i)))"

text \<open>\<^verbatim>\<open>payload.model_dump()\<close>: all six keys are present; an unset optional is \<^verbatim>\<open>None\<close>.\<close>

fun dump_opt :: "'a option \<Rightarrow> 'a entry" where
  "dump_opt None = Null"
| "dump_opt (Some x) = Val x"

definition model_dump :: "ProductIn \<Rightarrow> product_dict" where
  "model_dump v =
     \<lparr>d_title = Val (title v), d_description = dump_opt (description v),
      d_price = Val (price v), d_category = Val (category v),
      d_in_stock = Val (in_stock v), d_image = dump_opt (image v)\<rparr>"

subsection \<open>Object identifiers (bson.ObjectId)\<close>

text \<open>
  An \<^verbatim>\<open>ObjectId\<close> holds a byte string (\<^verbatim>\<open>ObjectId.binary\<close>), twelve bytes when the
  driver generates it. \<^verbatim>\<open>str(oid)\<close> is \<^verbatim>\<open>binascii.hexlify\<close> of the bytes: two
  lower-case hexadecimal digits for each byte.
\<close>

type_synonym oid = "8 word list"

definition hex_char :: "nat \<Rightarrow> char" where
  "hex_char n = ''0123456789abcdef'' ! (n mod 16)"

definition hex_val :: "char \<Rightarrow> nat option" where
  "hex_val c = map_of (zip ''0123456789abcdefABCDEF''
                           [0, 1, 2, 3, 4, 5, 6, 7, 8, 9, 10, 11, 12, 13, 14, 15,
                            10, 11, 12, 13, 14, 15]) c"

definition hexlify :: "8 word list \<Rightarrow> string" where
  "hexlify bs = concat (map (\<lambda>b. [hex_char (unat b div 16), hex_char (unat b)]) bs)"

text \<open>
  \<^verbatim>\<open>bytes.fromhex\<close>: ASCII whitespace is skipped before each pair of hexadecimal digits
  (and at the end); a pair is two digits of either case with nothing between them.
  \<open>None\<close> is \<^verbatim>\<open>ValueError\<close>.
\<close>

definition isspace :: "char \<Rightarrow> bool" where
  "isspace c \<longleftrightarrow> c \<in> set [CHR 0x20, CHR 0x09, CHR 0x0A, CHR 0x0B, CHR 0x0C, CHR 0x0D]"

fun fromhex :: "string \<Rightarrow> 8 word list option" where
  "fromhex [] = Some []"
| "fromhex [c] = (if isspace c then Some [] else None)"
| "fromhex (c # c' # cs) =
     (if isspace c then fromhex (c' # cs)
      else (case (hex_val c, hex_val c') of
              (Some h, Some l) \<Rightarrow> map_option ((#) (word_of_nat (16 * h + l))) (fromhex cs)
            | _ \<Rightarrow> None))"

definition str_oid :: "oid \<Rightarrow> string" where
  "str_oid i = hexlify i"

text \<open>
  \<^verbatim>\<open>ObjectId(s)\<close> for a \<^verbatim>\<open>str\<close>: a string of 24 characters is given to
  \<^verbatim>\<open>bytes.fromhex\<close>, and the bytes it returns are the identifier (fewer than twelve
  when the string has whitespace in it); every other string raises \<^verbatim>\<open>InvalidId\<close>,
  here \<open>None\<close>.
\<close>

definition ObjectId :: "string \<Rightarrow> oid option" where
  "ObjectId s = (if length s = 24 then fromhex s else None)"

subsection \<open>The document store (the MongoDB server behind the driver)\<close>

text \<open>
  The store holds the collection \<^verbatim>\<open>product\<close>: the documents with their \<^verbatim>\<open>_id\<close>, in
  insertion order, which is the order in which an unsorted query returns them.
  \<open>reachable\<close> tells whether the server answers; when it does not, every driver call
  raises. \<open>pcre\<close> is the server's regular-expression engine on the patterns this
  development does not interpret itself (see \<open>regex_i\<close>): it gives the matcher of a
  pattern, or \<open>None\<close> for a pattern the server rejects.
\<close>

type_synonym document = "oid \<times> product_dict"

record store =
  product :: "document list"
  reachable :: bool
  pcre :: "string \<Rightarrow> (string \<Rightarrow> bool) option"

type_synonym db = "store option"

subsubsection \<open>Regular expressions with option i\<close>

text \<open>
  A pattern made of characters that are not regular-expression operators, and of the
  operator \<^verbatim>\<open>.\<close>, is interpreted here: an ordinary character matches itself in
  either case, \<^verbatim>\<open>.\<close> matches any character but a newline, and the pattern matches a
  string when it matches at some position of it (the search is not anchored). Every
  other pattern is left to the engine \<open>pcre\<close> of the store.

  \<open>lower\<close> is the lower-case form of a code point below 256: the letters \<^verbatim>\<open>A\<close> to
  \<^verbatim>\<open>Z\<close> and the letters from \<^verbatim>\<open>U+00C0\<close> to \<^verbatim>\<open>U+00DE\<close> (all but the sign \<^verbatim>\<open>U+00D7\<close>)
  have their lower-case form 32 code points further, and every other code point is its
  own.
\<close>

definition lower :: "char \<Rightarrow> char" where
  "lower c =
     (if CHR ''A'' \<le> c \<and> c \<le> CHR ''Z'' \<or> CHR 0xC0 \<le> c \<and> c \<le> CHR 0xDE \<and> c \<noteq> CHR 0xD7
      then (case c of Char b0 b1 b2 b3 b4 b5 b6 b7 \<Rightarrow> Char b0 b1 b2 b3 b4 True b6 b7)
      else c)"

datatype rx_atom = RxChar char | RxAny

definition rx_operators :: "char list" where
  "rx_operators = [CHR 0x5C, CHR ''^'', CHR ''$'', CHR ''.'', CHR ''|'', CHR ''?'', CHR ''*'',
                   CHR ''+'', CHR ''('', CHR '')'', CHR ''['', CHR '']'', CHR ''{'', CHR ''}'']"

definition plain_char :: "char \<Rightarrow> bool" where
  "plain_char c \<longleftrightarrow> c \<notin> set rx_operators"

fun rx_compile :: "string \<Rightarrow> rx_atom list option" where
  "rx_compile [] = Some []"
| "rx_compile (c # cs) =
     (case (if c = CHR ''.'' then Some RxAny
            else if plain_char c then Some (RxChar c) else None) of
        None \<Rightarrow> None
      | Some a \<Rightarrow> map_option ((#) a) (rx_compile cs))"

fun rx_step :: "rx_atom \<Rightarrow> char \<Rightarrow> bool" where
  "rx_step RxAny c = (c \<noteq> CHR 0x0A)"
| "rx_step (RxChar a) c = (lower c = lower a)"

fun rx_prefix :: "rx_atom list \<Rightarrow> string \<Rightarrow> bool" where
  "rx_prefix [] s = True"
| "rx_prefix (a # as) [] = False"
| "rx_prefix (a # as) (c # cs) = (rx_step a c \<and> rx_prefix as cs)"

fun rx_search :: "rx_atom list \<Rightarrow> string \<Rightarrow> bool" where
  "rx_search as [] = rx_prefix as []"
| "rx_search as (c # cs) = (rx_prefix as (c # cs) \<or> rx_search as cs)"

definition regex_i :: "(string \<Rightarrow> (string \<Rightarrow> bool) option) \<Rightarrow> string \<Rightarrow> (string \<Rightarrow> bool) option" where
  "regex_i eng q = (case rx_compile q of Some as \<Rightarrow> Some (rx_search as) | None \<Rightarrow> eng q)"

subsubsection \<open>Filters\<close>

text \<open>
  The filter dictionaries that \<^verbatim>\<open>list_products\<close> can build. \<open>f_title = Some q\<close> is
  \<^verbatim>\<open>{"title": {"$regex": q, "$options": "i"}}\<close>, \<open>f_category = Some c\<close> is
  \<^verbatim>\<open>{"category": c}\<close>, and \<open>f_price = Some pc\<close> is \<^verbatim>\<open>{"price": pc}\<close> where \<open>pc\<close> has the
  keys \<^verbatim>\<open>$gte\<close> and \<^verbatim>\<open>$lte\<close> that are not \<open>None\<close>. The keys of a filter are joined by
  conjunction. A condition on a field holds only of a document that has the field with
  a value of the compared type.
\<close>

record price_cond =
  gte :: "price_t option"
  lte :: "price_t option"

record filt =
  f_title :: "string option"
  f_category :: "string option"
  f_price :: "price_cond option"

definition match_title :: "(string \<Rightarrow> bool) \<Rightarrow> product_dict \<Rightarrow> bool" where
  "match_title m d = (case d_title d of Val t \<Rightarrow> m t | _ \<Rightarrow> False)"

definition match_category :: "string option \<Rightarrow> product_dict \<Rightarrow> bool" where
  "match_category co d = (case co of None \<Rightarrow> True | Some c \<Rightarrow> d_category d = Val c)"

definition match_bounds :: "price_cond \<Rightarrow> price_t \<Rightarrow> bool" where
  "match_bounds pc p \<longleftrightarrow>
     (case gte pc of None \<Rightarrow> True | Some lo \<Rightarrow> lo \<le> p) \<and>
     (case lte pc of None \<Rightarrow> True | Some hi \<Rightarrow> p \<le> hi)"

definition match_price :: "price_cond option \<Rightarrow> product_dict \<Rightarrow> bool" where
  "match_price pco d =
     (case pco of
        None \<Rightarrow> True
      | Some pc \<Rightarrow>
          (if gte pc = None \<and> lte pc = None then False
           else (case d_price d of Val p \<Rightarrow> match_bounds pc p | _ \<Rightarrow> False)))"

text \<open>The predicate a filter denotes, or \<open>None\<close> when the server rejects its pattern.\<close>

definition compile_filt :: "(string \<Rightarrow> (string \<Rightarrow> bool) option) \<Rightarrow> filt \<Rightarrow> (product_dict \<Rightarrow> bool) option" where
  "compile_filt eng f =
     (case f_title f of
        None \<Rightarrow> Some (\<lambda>d. match_category (f_category f) d \<and> match_price (f_price f) d)
      | Some q \<Rightarrow>
          (case regex_i eng q of
             None \<Rightarrow> None
           | Some m \<Rightarrow>
               Some (\<lambda>d. match_title m d \<and> match_category (f_category f) d \<and>
                          match_price (f_price f) d)))"

subsubsection \<open>Driver calls on the collection\<close>

text \<open>\<^verbatim>\<open>db["product"].count_documents({})\<close>\<close>

definition count_documents :: "store \<Rightarrow> exn + nat" where
  "count_documents s =
     (if reachable s then Inr (length (product s)) else Inl ServerSelectionTimeoutError)"

text \<open>\<^verbatim>\<open>db["product"].find(filt)\<close>, read to the end\<close>

definition find_docs :: "store \<Rightarrow> filt \<Rightarrow> exn + document list" where
  "find_docs s f =
     (if \<not> reachable s then Inl ServerSelectionTimeoutError
      else (case compile_filt (pcre s) f of
              None \<Rightarrow> Inl OperationFailure
            | Some P \<Rightarrow> Inr (filter (\<lambda>doc. P (snd doc)) (product s))))"

text \<open>\<^verbatim>\<open>db["product"].find_one({"_id": oid})\<close>: the first document with that identifier\<close>

definition find_one :: "store \<Rightarrow> oid \<Rightarrow> exn + document option" where
  "find_one s i =
     (if reachable s then Inr (List.find (\<lambda>doc. fst doc = i) (product s))
      else Inl ServerSelectionTimeoutError)"

text \<open>
  \<^verbatim>\<open>db["product"].distinct("category")\<close>: the values of the key over the collection,
  each once; a document without the key contributes nothing.
\<close>

definition distinct_category :: "store \<Rightarrow> exn + string entry list" where
  "distinct_category s =
     (if reachable s
      then Inr (remdups (filter (\<lambda>e. e \<noteq> Missing) (map (\<lambda>doc. d_category (snd doc)) (product s))))
      else Inl ServerSelectionTimeoutError)"

text \<open>
  \<^verbatim>\<open>db["product"].insert_one(doc)\<close> for a document without \<^verbatim>\<open>_id\<close>: the driver generates
  an identifier, here the argument \<open>i\<close>, and the collection's unique index on \<^verbatim>\<open>_id\<close>
  rejects an identifier that is already there.
\<close>

definition insert_one :: "store \<Rightarrow> oid \<Rightarrow> product_dict \<Rightarrow> (exn + oid) \<times> store" where
  "insert_one s i d =
     (if \<not> reachable s then (Inl ServerSelectionTimeoutError, s)
      else if i \<in> fst ` set (product s) then (Inl DuplicateKeyError, s)
      else (Inr i, s\<lparr>product := product s @ [(i, d)]\<rparr>))"

subsection \<open>The store client and the schema (modules database and schemas)\<close>

text \<open>
  Modelled from the spec: \<^verbatim>\<open>create_document\<close> of the module \<^verbatim>\<open>database\<close>, which is not
  among the sources. The spec describes the store client as exposing
  \<^verbatim>\<open>insert(collection, doc) -> id\<close>, the identifier being assigned on creation and
  returned in its string form. The collection is always \<^verbatim>\<open>"product"\<close>. The spec does not
  say what the client does without a connection; here it raises.
\<close>

definition create_document :: "db \<Rightarrow> oid \<Rightarrow> product_dict \<Rightarrow> (exn + string) \<times> db" where
  "create_document dbh i d =
     (case dbh of
        None \<Rightarrow> (Inl DatabaseNotAvailable, None)
      | Some s \<Rightarrow>
          (case insert_one s i d of
             (Inl e, s') \<Rightarrow> (Inl e, Some s')
           | (Inr j, s') \<Rightarrow> (Inr (str_oid j), Some s')))"

text \<open>
  Modelled from the spec: \<^verbatim>\<open>get_documents\<close> of the module \<^verbatim>\<open>database\<close>, which is not
  among the sources. The spec describes it as \<^verbatim>\<open>find(collection, filter) -> sequence of doc\<close>,
  a pass-through call to the driver.
\<close>

definition get_documents :: "db \<Rightarrow> filt \<Rightarrow> exn + document list" where
  "get_documents dbh f =
     (case dbh of None \<Rightarrow> Inl DatabaseNotAvailable | Some s \<Rightarrow> find_docs s f)"

text \<open>
  Modelled from the spec: the class \<^verbatim>\<open>Product\<close> of the module \<^verbatim>\<open>schemas\<close>, imported as
  \<^verbatim>\<open>ProductSchema\<close>, which is not among the sources. The spec (4.2): given a candidate
  product payload, confirm \<^verbatim>\<open>title\<close> and \<^verbatim>\<open>category\<close> are non-empty strings, \<^verbatim>\<open>price\<close>
  is a number \<^verbatim>\<open>>= 0\<close>, \<^verbatim>\<open>in_stock\<close> is boolean (default true if absent),
  \<^verbatim>\<open>description\<close>/\<^verbatim>\<open>image\<close> are text-or-absent; it fails with a \<^verbatim>\<open>ValidationError\<close>
  naming the first offending field. The fields are taken in the order of the data model.
\<close>

fun nonempty_str :: "string entry \<Rightarrow> bool" where
  "nonempty_str (Val s) = (s \<noteq> [])"
| "nonempty_str _ = False"

definition ProductSchema :: "product_dict \<Rightarrow> exn + unit" where
  "ProductSchema d =
     (if \<not> nonempty_str (d_title d) then Inl (ValidationError [''title''])
      else if price_ge0 (d_price d) = None then Inl (ValidationError [''price''])
      else if \<not> nonempty_str (d_category d) then Inl (ValidationError [''category''])
      else if bool_default_true (d_in_stock d) = None then Inl (ValidationError [''in_stock''])
      else Inr ())"

subsection \<open>The handlers of main.py\<close>

text \<open>\<^verbatim>\<open>serialize_product\<close> (lines 37 to 46)\<close>

definition serialize_product :: "document \<Rightarrow> exn + ProductOut" where
  "serialize_product doc =
     ProductOut_validate (str_oid (fst doc))
       \<lparr>d_title = get (d_title (snd doc)),
        d_description = get (d_description (snd doc)),
        d_price = get (d_price (snd doc)),
        d_category = get (d_category (snd doc)),
        d_in_stock = get_default (d_in_stock (snd doc)) True,
        d_image = get (d_image (snd doc))\<rparr>"

text \<open>\<^verbatim>\<open>[serialize_product(d) for d in docs]\<close>: the first exception ends the comprehension.\<close>

fun serialize_all :: "document list \<Rightarrow> exn + ProductOut list" where
  "serialize_all [] = Inr []"
| "serialize_all (d # ds) =
     (case serialize_product d of
        Inl e \<Rightarrow> Inl e
      | Inr p \<Rightarrow> (case serialize_all ds of Inl e \<Rightarrow> Inl e | Inr ps \<Rightarrow> Inr (p # ps)))"

text \<open>The sample products of \<^verbatim>\<open>seed_products\<close> (lines 100 to 133)\<close>

definition samples :: "product_dict list" where
  \<open>samples =
     [\<lparr>d_title = Val ''Smartphone X200'',
       d_description = Val ''6.5" OLED, 128GB, Dual Camera'',
       d_price = Val 699,
       d_category = Val ''Phones'',
       d_in_stock = Val True,
       d_image = Val ''https://images.unsplash.com/photo-1511707171634-5f897ff02aa9?q=80&w=800&auto=format&fit=crop''\<rparr>,
      \<lparr>d_title = Val ''Noise-Canceling Headphones'',
       d_description = Val ''Over-ear, 30h battery, Bluetooth 5.2'',
       d_price = Val 199,
       d_category = Val ''Audio'',
       d_in_stock = Val True,
       d_image = Val ''https://images.unsplash.com/photo-1518441902119-52ab42fb52fb?q=80&w=800&auto=format&fit=crop''\<rparr>,
      \<lparr>d_title = Val ''4K Ultra HD TV 55"'',
       d_description = Val ''55-inch, HDR10+, Smart TV'',
       d_price = Val 499,
       d_category = Val ''TVs'',
       d_in_stock = Val True,
       d_image = Val ''https://images.unsplash.com/photo-1593359677879-74010a5d13b6?q=80&w=800&auto=format&fit=crop''\<rparr>,
      \<lparr>d_title = Val ''Gaming Laptop G15'',
       d_description = Val ''RTX 4060, 16GB RAM, 1TB SSD'',
       d_price = Val 1499,
       d_category = Val ''Computers'',
       d_in_stock = Val True,
       d_image = Val ''https://images.unsplash.com/photo-1517336714731-489689fd1ca8?q=80&w=800&auto=format&fit=crop''\<rparr>]\<close>

text \<open>
  \<^verbatim>\<open>for s in samples: create_document("product", s)\<close>. The identifier the driver
  generates for the \<open>n\<close>-th insertion is \<open>gen n\<close>. An exception ends the loop and keeps the
  documents inserted before it.
\<close>

fun insert_samples :: "db \<Rightarrow> (nat \<Rightarrow> oid) \<Rightarrow> nat \<Rightarrow> product_dict list \<Rightarrow> (exn + unit) \<times> db" where
  "insert_samples dbh gen n [] = (Inr (), dbh)"
| "insert_samples dbh gen n (s # ss) =
     (case create_document dbh (gen n) s of
        (Inl e, dbh') \<Rightarrow> (Inl e, dbh')
      | (Inr _, dbh') \<Rightarrow> insert_samples dbh' gen (Suc n) ss)"

text \<open>The body of the \<^verbatim>\<open>try\<close> of \<^verbatim>\<open>seed_products\<close> (lines 98 to 135)\<close>

definition seed_try :: "store \<Rightarrow> (nat \<Rightarrow> oid) \<Rightarrow> (exn + unit) \<times> db" where
  "seed_try s gen =
     (case count_documents s of
        Inl e \<Rightarrow> (Inl e, Some s)
      | Inr count \<Rightarrow>
          (if count = 0 then insert_samples (Some s) gen 0 samples else (Inr (), Some s)))"

text \<open>
  \<^verbatim>\<open>seed_products\<close> (lines 93 to 138): the result is what the coroutine raises or
  returns; \<^verbatim>\<open>except Exception: pass\<close> turns every exception of the body into a return.
\<close>

definition seed_products :: "db \<Rightarrow> (nat \<Rightarrow> oid) \<Rightarrow> (exn + unit) \<times> db" where
  "seed_products dbh gen =
     (case dbh of
        None \<Rightarrow> (Inr (), dbh)
      | Some s \<Rightarrow> (case seed_try s gen of (Inl e, dbh') \<Rightarrow> (Inr (), dbh') | r \<Rightarrow> r))"

text \<open>Python truthiness of an \<^verbatim>\<open>Optional[str]\<close>: \<^verbatim>\<open>None\<close> and \<^verbatim>\<open>""\<close> are false.\<close>

fun truthy :: "string option \<Rightarrow> bool" where
  "truthy None = False"
| "truthy (Some s) = (s \<noteq> [])"

text \<open>The filter that \<^verbatim>\<open>list_products\<close> builds (lines 145 to 156); \<open>cat\<close> is the
  parameter \<^verbatim>\<open>category\<close>.\<close>

definition build_filt :: "string option \<Rightarrow> string option \<Rightarrow> price_t option \<Rightarrow> price_t option \<Rightarrow> filt" where
  "build_filt q cat min_price max_price =
     \<lparr>f_title = (if truthy q then q else None),
      f_category = (if truthy cat then cat else None),
      f_price = (if min_price \<noteq> None \<or> max_price \<noteq> None
                 then Some \<lparr>gte = min_price, lte = max_price\<rparr> else None)\<rparr>"

text \<open>\<^verbatim>\<open>list_products\<close> (lines 141 to 159)\<close>

definition list_products :: "db \<Rightarrow> string option \<Rightarrow> string option \<Rightarrow> price_t option \<Rightarrow> price_t option
    \<Rightarrow> (http_error + ProductOut list) \<times> db" where
  "list_products dbh q cat min_price max_price =
     (if dbh = None then (Inr [], dbh)
      else (case get_documents dbh (build_filt q cat min_price max_price) of
              Inl e \<Rightarrow> (Inl (Unhandled e), dbh)
            | Inr docs \<Rightarrow>
                (case serialize_all docs of
                   Inl e \<Rightarrow> (Inl (Unhandled e), dbh)
                 | Inr ps \<Rightarrow> (Inr ps, dbh))))"

text \<open>\<^verbatim>\<open>get_product\<close> (lines 162 to 173)\<close>

definition get_product :: "db \<Rightarrow> string \<Rightarrow> (http_error + ProductOut) \<times> db" where
  "get_product dbh product_id =
     (case dbh of
        None \<Rightarrow> (Inl (HTTPException 503 ''Database unavailable''), dbh)
      | Some s \<Rightarrow>
          (case ObjectId product_id of
             None \<Rightarrow> (Inl (HTTPException 400 ''Invalid product id''), dbh)
           | Some i \<Rightarrow>
               (case find_one s i of
                  Inl e \<Rightarrow> (Inl (Unhandled e), dbh)
                | Inr None \<Rightarrow> (Inl (HTTPException 404 ''Product not found''), dbh)
                | Inr (Some doc) \<Rightarrow>
                    (case serialize_product doc of
                       Inl e \<Rightarrow> (Inl (Unhandled e), dbh)
                     | Inr p \<Rightarrow> (Inr p, dbh)))))"

text \<open>
  \<^verbatim>\<open>create_product\<close> (lines 176 to 181). \<open>body\<close> is the JSON object of the request; the
  framework parses it into the parameter \<^verbatim>\<open>payload: ProductIn\<close> before the handler
  runs. \<open>i\<close> is the identifier the driver generates if the insertion is reached.
\<close>

definition create_product :: "db \<Rightarrow> oid \<Rightarrow> product_dict \<Rightarrow> (http_error + string) \<times> db" where
  "create_product dbh i body =
     (case ProductIn_validate body of
        Inl fs \<Rightarrow> (Inl (RequestValidationError fs), dbh)
      | Inr payload \<Rightarrow>
          (case ProductSchema (model_dump payload) of
             Inl e \<Rightarrow> (Inl (Unhandled e), dbh)
           | Inr _ \<Rightarrow>
               (case create_document dbh i (model_dump payload) of
                  (Inl e, dbh') \<Rightarrow> (Inl (Unhandled e), dbh')
                | (Inr inserted_id, dbh') \<Rightarrow> (Inr inserted_id, dbh'))))"

text \<open>\<^verbatim>\<open>[c for c in cats if c]\<close>: \<^verbatim>\<open>None\<close> and the empty string are dropped.\<close>

fun truthy_values :: "string entry list \<Rightarrow> string list" where
  "truthy_values [] = []"
| "truthy_values (Val c # es) = (if c \<noteq> [] then c # truthy_values es else truthy_values es)"
| "truthy_values (_ # es) = truthy_values es"

text \<open>\<^verbatim>\<open>list_categories\<close> (lines 184 to 189)\<close>

definition list_categories :: "db \<Rightarrow> (http_error + string list) \<times> db" where
  "list_categories dbh =
     (case dbh of
        None \<Rightarrow> (Inr [], dbh)
      | Some s \<Rightarrow>
          (case distinct_category s of
             Inl e \<Rightarrow> (Inl (Unhandled e), dbh)
           | Inr cats \<Rightarrow> (Inr (sort (truthy_values cats)), dbh)))"

subsection \<open>Notions used to state the properties\<close>

text \<open>Whether a filter holds of a document; \<open>None\<close> when the server rejects the filter.\<close>

definition filt_holds :: "(string \<Rightarrow> (string \<Rightarrow> bool) option) \<Rightarrow> filt \<Rightarrow> product_dict \<Rightarrow> bool option" where
  "filt_holds eng f d = map_option (\<lambda>P. P d) (compile_filt eng f)"

text \<open>
  A document has the shape of a Product (spec, sections 3 and 6): \<^verbatim>\<open>title\<close> and
  \<^verbatim>\<open>category\<close> are present, \<^verbatim>\<open>price\<close> is present and not negative, and \<^verbatim>\<open>in_stock\<close> is
  a boolean when it is present.
\<close>

fun is_val :: "'a entry \<Rightarrow> bool" where
  "is_val (Val _) = True"
| "is_val _ = False"

definition product_shaped :: "product_dict \<Rightarrow> bool" where
  "product_shaped d \<longleftrightarrow>
     is_val (d_title d) \<and> (case d_price d of Val p \<Rightarrow> 0 \<le> p | _ \<Rightarrow> False) \<and>
     is_val (d_category d) \<and> d_in_stock d \<noteq> Null"

text \<open>
  The document that \<^verbatim>\<open>serialize_product\<close> turns into a given product: the entries of the
  document read as the fields of the product, an absent or null optional as \<open>None\<close>, an
  absent \<^verbatim>\<open>in_stock\<close> as true.
\<close>

fun entry_opt :: "'a entry \<Rightarrow> 'a option" where
  "entry_opt (Val x) = Some x"
| "entry_opt _ = None"

definition reads_as :: "product_dict \<Rightarrow> 'a ProductIn_scheme \<Rightarrow> bool" where
  "reads_as d p \<longleftrightarrow>
     d_title d = Val (title p) \<and> entry_opt (d_description d) = description p \<and>
     d_price d = Val (price p) \<and> d_category d = Val (category p) \<and>
     (case d_in_stock d of Missing \<Rightarrow> in_stock p | Null \<Rightarrow> False | Val b \<Rightarrow> in_stock p = b) \<and>
     entry_opt (d_image d) = image p"

text \<open>Substring containment, and the same up to the case of letters (see \<open>lower\<close>).\<close>

fun starts_with :: "string \<Rightarrow> string \<Rightarrow> bool" where
  "starts_with s [] = True"
| "starts_with [] (x # xs) = False"
| "starts_with (c # cs) (x # xs) = (c = x \<and> starts_with cs xs)"

fun contains :: "string \<Rightarrow> string \<Rightarrow> bool" where
  "contains [] x = starts_with [] x"
| "contains (c # cs) x = (starts_with (c # cs) x \<or> contains cs x)"

definition ci_contains :: "string \<Rightarrow> string \<Rightarrow> bool" where
  "ci_contains s x = contains (map lower s) (map lower x)"

text \<open>
  The filter of the specification, in its words: the conjunction of a case-insensitive
  substring match on the title when \<open>q\<close> is present, equality on the category when \<open>cat\<close>
  is present, and the price within the bounds that are given.
\<close>

definition spec_filter :: "string option \<Rightarrow> string option \<Rightarrow> price_t option \<Rightarrow> price_t option \<Rightarrow> product_dict \<Rightarrow> bool" where
  "spec_filter q cat min_price max_price d \<longleftrightarrow>
     (case q of None \<Rightarrow> True
      | Some x \<Rightarrow> (case d_title d of Val t \<Rightarrow> ci_contains t x | _ \<Rightarrow> False)) \<and>
     (case cat of None \<Rightarrow> True | Some c \<Rightarrow> d_category d = Val c) \<and>
     (case min_price of None \<Rightarrow> True
      | Some lo \<Rightarrow> (case d_price d of Val p \<Rightarrow> lo \<le> p | _ \<Rightarrow> False)) \<and>
     (case max_price of None \<Rightarrow> True
      | Some hi \<Rightarrow> (case d_price d of Val p \<Rightarrow> p \<le> hi | _ \<Rightarrow> False))"

text \<open>Stores and requests used as examples.\<close>

definition no_engine :: "string \<Rightarrow> (string \<Rightarrow> bool) option" where
  "no_engine q = None"

definition sample_oid :: "nat \<Rightarrow> oid" where
  "sample_oid n = replicate 11 0 @ [word_of_nat n]"

definition tv :: product_dict where
  "tv = \<lparr>d_title = Val ''TV'', d_description = Null, d_price = Val 499,
         d_category = Val ''TVs'', d_in_stock = Val True, d_image = Null\<rparr>"

definition radio :: product_dict where
  "radio = \<lparr>d_title = Val ''Radio'', d_description = Val ''FM'', d_price = Val 25,
            d_category = Val ''Audio'', d_in_stock = Missing, d_image = Null\<rparr>"

definition shop :: store where
  "shop = \<lparr>product = [(sample_oid 1, tv), (sample_oid 2, radio)], reachable = True,
           pcre = no_engine\<rparr>"

definition empty_shop :: store where
  "empty_shop = \<lparr>product = [], reachable = True, pcre = no_engine\<rparr>"

definition down_shop :: store where
  "down_shop = \<lparr>product = [(sample_oid 1, tv), (sample_oid 2, radio)], reachable = False,
                pcre = no_engine\<rparr>"

definition unpriced :: product_dict where
  "unpriced = \<lparr>d_title = Val ''Cable'', d_description = Null, d_price = Missing,
               d_category = Val ''Audio'', d_in_stock = Val True, d_image = Null\<rparr>"

definition odd_shop :: store where
  "odd_shop = \<lparr>product = [(sample_oid 1, unpriced)], reachable = True, pcre = no_engine\<rparr>"

definition earbuds :: product_dict where
  "earbuds = \<lparr>d_title = Val ''Earbuds'', d_description = Missing, d_price = Val (4999 / 100),
              d_category = Val ''Audio'', d_in_stock = Missing, d_image = Missing\<rparr>"

section \<open>Properties\<close>

subsection \<open>Auxiliary facts\<close>

lemma hex_char_all:
  "list_all (\<lambda>n. hex_val (hex_char n) = Some n \<and> \<not> isspace (hex_char n)) [0..<16]"
  by code_simp

lemma hex_val_hex_char: "hex_val (hex_char n) = Some (n mod 16)"
proof -
  have "n mod 16 \<in> set [0..<16]" by simp
  with hex_char_all have "hex_val (hex_char (n mod 16)) = Some (n mod 16)"
    unfolding list_all_iff by blast
  then show ?thesis by (simp add: hex_char_def)
qed

lemma hex_char_not_space: "\<not> isspace (hex_char n)"
proof -
  have "n mod 16 \<in> set [0..<16]" by simp
  with hex_char_all have "\<not> isspace (hex_char (n mod 16))"
    unfolding list_all_iff by blast
  then show ?thesis by (simp add: hex_char_def)
qed

lemma byte_of_digits: "word_of_nat (16 * (unat b div 16 mod 16) + unat b mod 16) = b"
  for b :: "8 word"
proof -
  have "unat b < 256" using unsigned_less [of b] by simp
  then have "unat b div 16 mod 16 = unat b div 16" by simp
  then show ?thesis by simp
qed

lemma fromhex_pair:
  assumes "\<not> isspace c" "hex_val c = Some h" "hex_val c' = Some l"
  shows "fromhex (c # c' # cs) = map_option ((#) (word_of_nat (16 * h + l))) (fromhex cs)"
  using assms by simp

lemma fromhex_hexlify: "fromhex (hexlify bs) = Some bs"
proof (induction bs)
  case Nil
  show ?case by (simp add: hexlify_def)
next
  case (Cons b bs)
  have e: "hexlify (b # bs) = hex_char (unat b div 16) # hex_char (unat b) # hexlify bs"
    by (simp add: hexlify_def)
  have "fromhex (hexlify (b # bs)) =
      map_option ((#) (word_of_nat (16 * (unat b div 16 mod 16) + unat b mod 16)))
        (fromhex (hexlify bs))"
    unfolding e by (rule fromhex_pair) (rule hex_char_not_space hex_val_hex_char)+
  also have "\<dots> = Some (b # bs)"
    unfolding byte_of_digits Cons by simp
  finally show ?case .
qed

lemma length_hexlify: "length (hexlify bs) = 2 * length bs"
  by (induction bs) (simp_all add: hexlify_def)

text \<open>Parsing the string form of a twelve-byte identifier gives the identifier back.\<close>

lemma ObjectId_str_oid: "length i = 12 \<Longrightarrow> ObjectId (str_oid i) = Some i"
  by (simp add: ObjectId_def str_oid_def length_hexlify fromhex_hexlify)

text \<open>The identifiers of the examples.\<close>

lemma length_sample_oid: "length (sample_oid n) = 12"
  by (simp add: sample_oid_def)

lemma sample_oid_inj: "m < 256 \<Longrightarrow> n < 256 \<Longrightarrow> sample_oid m = sample_oid n \<longleftrightarrow> m = n"
  by (simp add: sample_oid_def word_of_nat_eq_iff take_bit_nat_eq_self)

lemma str_oid_1: "str_oid (sample_oid 1) = ''000000000000000000000001''"
  by code_simp

lemma str_oid_2: "str_oid (sample_oid 2) = ''000000000000000000000002''"
  by code_simp

lemma str_oid_3: "str_oid (sample_oid 3) = ''000000000000000000000003''"
  by code_simp

lemma ObjectId_1: "ObjectId ''000000000000000000000001'' = Some (sample_oid 1)"
  by code_simp

lemma ObjectId_2: "ObjectId ''000000000000000000000002'' = Some (sample_oid 2)"
  by code_simp

lemma ObjectId_3: "ObjectId ''000000000000000000000003'' = Some (sample_oid 3)"
  by code_simp

lemma ObjectId_bad: "ObjectId ''no-such-id'' = None"
  by code_simp

lemma ObjectId_spaced: "ObjectId ''0000000000000000000002  '' = Some (replicate 10 0 @ [2])"
  by code_simp

lemma ObjectId_split_pair: "ObjectId ''00000000000000000000 0 2'' = None"
  by code_simp

subsection \<open>Empty query strings\<close>

text \<open>
  Claim C10. In \<^verbatim>\<open>GET /api/products\<close> an empty string given for \<^verbatim>\<open>q\<close> or for
  \<^verbatim>\<open>category\<close> is treated exactly as an absent parameter: the handler tests truthiness,
  so the filter that is built, and with it the whole response, equals the one for the
  parameter omitted.
\<close>

theorem empty_string_as_absent:
  "build_filt (Some []) cat lo hi = build_filt None cat lo hi \<and>
   build_filt q (Some []) lo hi = build_filt q None lo hi \<and>
   list_products dbh (Some []) cat lo hi = list_products dbh None cat lo hi \<and>
   list_products dbh q (Some []) lo hi = list_products dbh q None lo hi"
  by (simp add: build_filt_def list_products_def)

theorem empty_string_as_absent_witness:
  "list_products (Some shop) (Some []) (Some ''TVs'') None None =
   list_products (Some shop) None (Some ''TVs'') None None \<and>
   list_products (Some shop) (Some ''tv'') (Some []) None None =
   list_products (Some shop) (Some ''tv'') None None None"
  using empty_string_as_absent [of "Some ''TVs''" None None "Some ''tv''" "Some shop"]
  by simp

subsection \<open>Facts about validation, serialization and lookup\<close>

lemma ProductIn_validate_ok:
  assumes "d_title d = Val t" "d_price d = Val p" "0 \<le> p" "d_category d = Val c"
    "bool_default_true (d_in_stock d) = Some b"
  shows "ProductIn_validate d =
    Inr \<lparr>title = t, description = entry_opt (d_description d), price = p, category = c,
         in_stock = b, image = entry_opt (d_image d)\<rparr>"
  using assms
  by (cases "d_description d"; cases "d_image d") (simp_all add: ProductIn_validate_def)
lemma ProductIn_validate_price:
  assumes "price_ge0 (d_price d) = None"
  shows "ProductIn_validate d = Inl (ProductIn_errors d)"
  using assms by (simp add: ProductIn_validate_def split: option.splits)

lemma price_in_errors:
  "price_ge0 (d_price d) = None \<Longrightarrow> ''price'' \<in> set (ProductIn_errors d)"
  by (simp add: ProductIn_errors_def)
lemma is_val_iff: "is_val e \<longleftrightarrow> (\<exists>x. e = Val x)"
  by (cases e) auto

lemma serialize_product_shaped:
  assumes "product_shaped d"
  shows "\<exists>p. serialize_product (i, d) = Inr p \<and> reads_as d p \<and> pid p = str_oid i"
proof -
  from assms obtain t c where tc: "d_title d = Val t" "d_category d = Val c"
    by (auto simp: product_shaped_def is_val_iff)
  from assms obtain p where p: "d_price d = Val p" "0 \<le> p"
    by (cases "d_price d") (auto simp: product_shaped_def)
  from assms have s: "d_in_stock d \<noteq> Null"
    by (simp add: product_shaped_def)
  obtain b where b: "bool_default_true (get_default (d_in_stock d) True) = Some b"
      "case d_in_stock d of Missing \<Rightarrow> b | Null \<Rightarrow> False | Val x \<Rightarrow> b = x"
    using s by (cases "d_in_stock d") auto
  let ?k = "\<lparr>d_title = get (d_title d), d_description = get (d_description d),
             d_price = get (d_price d), d_category = get (d_category d),
             d_in_stock = get_default (d_in_stock d) True, d_image = get (d_image d)\<rparr>"
  have "ProductIn_validate ?k =
      Inr \<lparr>title = t, description = entry_opt (d_description ?k), price = p, category = c,
           in_stock = b, image = entry_opt (d_image ?k)\<rparr>"
    by (rule ProductIn_validate_ok) (use tc p b in simp_all)
  moreover have "entry_opt (get e) = entry_opt e" for e :: "string entry"
    by (cases e) auto
  ultimately have "serialize_product (i, d) =
      Inr \<lparr>title = t, description = entry_opt (d_description d), price = p, category = c,
           in_stock = b, image = entry_opt (d_image d), pid = str_oid i\<rparr>"
    by (simp add: serialize_product_def ProductOut_validate_def
        ProductIn.extend_def ProductOut.fields_def)
  moreover have "reads_as d \<lparr>title = t, description = entry_opt (d_description d), price = p,
      category = c, in_stock = b, image = entry_opt (d_image d), pid = str_oid i\<rparr>"
    using tc p b by (cases "d_in_stock d") (simp_all add: reads_as_def)
  ultimately show ?thesis by simp
qed

lemma find_Some_fst:
  "i \<in> fst ` set xs \<Longrightarrow> \<exists>d. List.find (\<lambda>doc. fst doc = i) xs = Some (i, d) \<and> (i, d) \<in> set xs"
  by (induction xs) auto

lemma find_None_fst:
  "i \<notin> fst ` set xs \<Longrightarrow> List.find (\<lambda>doc. fst doc = i) xs = None"
  by (induction xs) auto

lemma get_product_None:
  "fst (get_product None product_id) = Inl (HTTPException 503 ''Database unavailable'')"
  by (simp add: get_product_def)

lemma get_product_malformed:
  "ObjectId product_id = None \<Longrightarrow>
   fst (get_product (Some s) product_id) = Inl (HTTPException 400 ''Invalid product id'')"
  by (simp add: get_product_def)

lemma get_product_not_found:
  assumes "reachable s" "ObjectId product_id = Some i" "i \<notin> fst ` set (product s)"
  shows "fst (get_product (Some s) product_id) = Inl (HTTPException 404 ''Product not found'')"
proof -
  have "find_one s i = Inr None"
    using assms(1,3) by (simp add: find_one_def find_None_fst)
  then show ?thesis
    using assms(2) by (simp add: get_product_def)
qed

lemma required_str_Some: "required_str e = Some s \<longleftrightarrow> e = Val s"
  by (cases e) auto

lemma price_ge0_Some: "price_ge0 e = Some p \<longleftrightarrow> e = Val p \<and> 0 \<le> p"
  by (cases e) auto

lemma optional_str_Some: "optional_str e = Some x \<longleftrightarrow> x = entry_opt e"
  by (cases e) auto

lemma ProductIn_validate_Inr:
  assumes "ProductIn_validate d = Inr v"
  shows "d_title d = Val (title v) \<and> d_price d = Val (price v) \<and> 0 \<le> price v \<and>
    d_category d = Val (category v) \<and> bool_default_true (d_in_stock d) = Some (in_stock v) \<and>
    description v = entry_opt (d_description d) \<and> image v = entry_opt (d_image d)"
proof -
  obtain t de p c b im where o: "required_str (d_title d) = Some t"
      "optional_str (d_description d) = Some de" "price_ge0 (d_price d) = Some p"
      "required_str (d_category d) = Some c" "bool_default_true (d_in_stock d) = Some b"
      "optional_str (d_image d) = Some im"
    using assms by (simp add: ProductIn_validate_def split: option.splits)
  then have "ProductIn_validate d =
      Inr \<lparr>title = t, description = de, price = p, category = c, in_stock = b, image = im\<rparr>"
    by (simp add: ProductIn_validate_def)
  with assms have "v = \<lparr>title = t, description = de, price = p, category = c, in_stock = b, image = im\<rparr>"
    by simp
  with o show ?thesis
    by (simp add: required_str_Some price_ge0_Some optional_str_Some)
qed

lemma ProductIn_validate_Inl:
  assumes "ProductIn_validate d = Inl fs"
  shows "fs = ProductIn_errors d \<and> fs \<noteq> []"
proof -
  have fs: "fs = ProductIn_errors d"
    using assms by (simp add: ProductIn_validate_def split: option.splits)
  have "required_str (d_title d) = None \<or> price_ge0 (d_price d) = None \<or>
      required_str (d_category d) = None \<or> bool_default_true (d_in_stock d) = None"
  proof (rule ccontr)
    assume "\<not> ?thesis"
    then obtain t p c b where "d_title d = Val t" "d_price d = Val p" "0 \<le> p"
        "d_category d = Val c" "bool_default_true (d_in_stock d) = Some b"
      by (auto simp: required_str_Some price_ge0_Some)
    then have "\<exists>v. ProductIn_validate d = Inr v"
      using ProductIn_validate_ok by blast
    with assms show False by auto
  qed
  then have "ProductIn_errors d \<noteq> []"
    by (auto simp: ProductIn_errors_def)
  with fs show ?thesis by simp
qed

lemma create_product_invalid_body:
  "ProductIn_validate body = Inl fs \<Longrightarrow>
   create_product dbh i body = (Inl (RequestValidationError fs), dbh)"
  by (simp add: create_product_def)

lemma create_product_schema_rejects:
  "ProductIn_validate body = Inr v \<Longrightarrow> ProductSchema (model_dump v) = Inl e \<Longrightarrow>
   create_product dbh i body = (Inl (Unhandled e), dbh)"
  by (simp add: create_product_def)

lemma ProductSchema_model_dump:
  assumes "ProductIn_validate body = Inr v"
  shows "ProductSchema (model_dump v) =
    (if title v = [] then Inl (ValidationError [''title''])
     else if category v = [] then Inl (ValidationError [''category'']) else Inr ())"
  using ProductIn_validate_Inr [OF assms]
  by (simp add: ProductSchema_def model_dump_def)

text \<open>Facts about the example stores.\<close>

lemma tv_shaped: "product_shaped tv" by (simp add: product_shaped_def tv_def)
lemma radio_shaped: "product_shaped radio" by (simp add: product_shaped_def radio_def)

lemma unpriced_not_shaped: "\<not> product_shaped unpriced"
  by (simp add: product_shaped_def unpriced_def)

lemma shop_fields: "reachable shop" "product shop = [(sample_oid 1, tv), (sample_oid 2, radio)]"
  by (simp_all add: shop_def)

lemma shop_ids: "sample_oid 3 \<notin> fst ` set (product shop)"
    "sample_oid 2 \<in> fst ` set (product shop)"
  by (simp_all add: shop_fields sample_oid_def)

lemma shop_shaped: "\<forall>doc \<in> set (product shop). product_shaped (snd doc)"
  by (simp add: shop_fields tv_shaped radio_shaped)

lemma odd_shop_fields: "reachable odd_shop" "product odd_shop = [(sample_oid 1, unpriced)]"
  by (simp_all add: odd_shop_def)

lemma down_shop_unreachable: "\<not> reachable down_shop"
  by (simp add: down_shop_def)

subsection \<open>Fetching one product\<close>

text \<open>
  Claim C9. \<^verbatim>\<open>GET /api/products/{id}\<close> never modifies the store: whatever the request and
  whatever the answer, in particular 404 for a well-formed identifier that is not in the
  collection and 400 for a malformed one, the store after the request is the store
  before it.
\<close>

theorem get_product_frame: "snd (get_product dbh product_id) = dbh"
  by (simp add: get_product_def split: option.splits sum.splits)

theorem get_product_frame_witness:
  "snd (get_product (Some shop) ''000000000000000000000003'') = Some shop \<and>
   status_code (fst (get_product (Some shop) ''000000000000000000000003'')) = 404 \<and>
   snd (get_product (Some shop) ''no-such-id'') = Some shop \<and>
   status_code (fst (get_product (Some shop) ''no-such-id'')) = 400"
proof -
  have "status_code (fst (get_product (Some shop) ''000000000000000000000003'')) = 404"
    by (simp add: get_product_def ObjectId_3 find_one_def shop_def sample_oid_def)
  moreover have "status_code (fst (get_product (Some shop) ''no-such-id'')) = 400"
    by (simp add: get_product_def ObjectId_bad)
  ultimately show ?thesis
    using get_product_frame [of "Some shop" "''000000000000000000000003''"]
      get_product_frame [of "Some shop" "''no-such-id''"]
    by simp
qed

lemma serialize_product_unshaped:
  assumes "\<not> product_shaped d"
  shows "\<exists>fs. fs \<noteq> [] \<and> serialize_product (i, d) = Inl (ValidationError fs)"
proof -
  let ?k = "\<lparr>d_title = get (d_title d), d_description = get (d_description d),
             d_price = get (d_price d), d_category = get (d_category d),
             d_in_stock = get_default (d_in_stock d) True, d_image = get (d_image d)\<rparr>"
  have "\<exists>fs. ProductIn_validate ?k = Inl fs"
  proof (cases "ProductIn_validate ?k")
    case (Inl fs)
    then show ?thesis by blast
  next
    case (Inr v)
    note f = ProductIn_validate_Inr [OF Inr]
    from f have "get (d_title d) = Val (title v)" by simp
    then have t: "is_val (d_title d)" by (cases "d_title d") auto
    from f have "get (d_category d) = Val (category v)" by simp
    then have c: "is_val (d_category d)" by (cases "d_category d") auto
    from f have "get (d_price d) = Val (price v)" "0 \<le> price v" by simp_all
    then have p: "case d_price d of Val p \<Rightarrow> 0 \<le> p | _ \<Rightarrow> False"
      by (cases "d_price d") auto
    from f have "bool_default_true (get_default (d_in_stock d) True) = Some (in_stock v)"
      by simp
    then have "d_in_stock d \<noteq> Null" by (cases "d_in_stock d") auto
    with t c p have "product_shaped d" by (simp add: product_shaped_def)
    with assms show ?thesis by blast
  qed
  then obtain fs where fs: "ProductIn_validate ?k = Inl fs" by blast
  then have "fs \<noteq> []" using ProductIn_validate_Inl by blast
  moreover have "serialize_product (i, d) = Inl (ValidationError fs)"
    using fs by (simp add: serialize_product_def ProductOut_validate_def)
  ultimately show ?thesis by blast
qed

lemma get_product_raises:
  assumes "find_one s i = Inl e" "ObjectId product_id = Some i"
  shows "fst (get_product (Some s) product_id) = Inl (Unhandled e)"
  using assms by (simp add: get_product_def)

lemma get_product_unreachable:
  assumes "\<not> reachable s" "ObjectId product_id = Some i"
  shows "fst (get_product (Some s) product_id) = Inl (Unhandled ServerSelectionTimeoutError)"
  using assms by (simp add: get_product_def find_one_def)

lemma get_product_found:
  assumes "reachable s" "ObjectId product_id = Some i" "i \<in> fst ` set (product s)"
  shows "\<exists>d. List.find (\<lambda>doc. fst doc = i) (product s) = Some (i, d) \<and>
    (product_shaped d \<longrightarrow>
       (\<exists>p. fst (get_product (Some s) product_id) = Inr p \<and> reads_as d p \<and> pid p = str_oid i)) \<and>
    (\<not> product_shaped d \<longrightarrow>
       (\<exists>fs. fs \<noteq> [] \<and>
          fst (get_product (Some s) product_id) = Inl (Unhandled (ValidationError fs))))"
proof -
  obtain d where d: "List.find (\<lambda>doc. fst doc = i) (product s) = Some (i, d)"
    using find_Some_fst [OF assms(3)] by blast
  have fo: "find_one s i = Inr (Some (i, d))"
    using assms(1) d by (simp add: find_one_def)
  have 1: "\<exists>p. fst (get_product (Some s) product_id) = Inr p \<and> reads_as d p \<and> pid p = str_oid i"
    if ps: "product_shaped d"
  proof -
    obtain p where p: "serialize_product (i, d) = Inr p" "reads_as d p" "pid p = str_oid i"
      using serialize_product_shaped [OF ps] by blast
    have "fst (get_product (Some s) product_id) = Inr p"
      using assms(2) fo p(1) by (simp add: get_product_def)
    with p(2,3) show ?thesis by blast
  qed
  have 2: "\<exists>fs. fs \<noteq> [] \<and>
      fst (get_product (Some s) product_id) = Inl (Unhandled (ValidationError fs))"
    if ps: "\<not> product_shaped d"
  proof -
    obtain fs where fs: "fs \<noteq> []" "serialize_product (i, d) = Inl (ValidationError fs)"
      using serialize_product_unshaped [OF ps] by blast
    have "fst (get_product (Some s) product_id) = Inl (Unhandled (ValidationError fs))"
      using assms(2) fo fs(2) by (simp add: get_product_def)
    with fs(1) show ?thesis by blast
  qed
  from d 1 2 show ?thesis by blast
qed

lemma get_product_codes:
  "status_code (fst (get_product dbh product_id)) \<in> {200, 400, 404, 500, 503}"
  by (simp add: get_product_def split: option.splits sum.splits)

text \<open>
  Claim C6, as amended. For every request to \<^verbatim>\<open>GET /api/products/{id}\<close>: if the store is
  not configured (\<^verbatim>\<open>db is None\<close>) the answer is 503; otherwise, if \<^verbatim>\<open>ObjectId\<close> rejects
  the identifier, it is 400; otherwise, if the store call raises (the server does not
  answer), the exception is not caught and the answer is 500; otherwise, if no document
  has that identifier, it is 404; otherwise the first document with that identifier is
  read: when it has the shape of a Product, a single Product is returned, which is the
  reading of that document, and when it has not, the validation error of \<^verbatim>\<open>ProductOut\<close>
  is not caught and the answer is 500. No other status occurs.
\<close>

theorem get_product_status:
  "(dbh = None \<longrightarrow>
      fst (get_product dbh product_id) = Inl (HTTPException 503 ''Database unavailable'')) \<and>
   (dbh = Some s \<and> ObjectId product_id = None \<longrightarrow>
      fst (get_product dbh product_id) = Inl (HTTPException 400 ''Invalid product id'')) \<and>
   (dbh = Some s \<and> ObjectId product_id = Some i \<and> find_one s i = Inl e \<longrightarrow>
      fst (get_product dbh product_id) = Inl (Unhandled e)) \<and>
   (dbh = Some s \<and> ObjectId product_id = Some i \<and> \<not> reachable s \<longrightarrow>
      fst (get_product dbh product_id) = Inl (Unhandled ServerSelectionTimeoutError)) \<and>
   (dbh = Some s \<and> ObjectId product_id = Some i \<and> reachable s \<and> i \<notin> fst ` set (product s) \<longrightarrow>
      fst (get_product dbh product_id) = Inl (HTTPException 404 ''Product not found'')) \<and>
   (dbh = Some s \<and> ObjectId product_id = Some i \<and> reachable s \<and> i \<in> fst ` set (product s) \<longrightarrow>
      (\<exists>d. List.find (\<lambda>doc. fst doc = i) (product s) = Some (i, d) \<and>
         (product_shaped d \<longrightarrow>
            (\<exists>p. fst (get_product dbh product_id) = Inr p \<and> reads_as d p \<and>
                 pid p = str_oid i)) \<and>
         (\<not> product_shaped d \<longrightarrow>
            (\<exists>fs. fs \<noteq> [] \<and>
               fst (get_product dbh product_id) = Inl (Unhandled (ValidationError fs)))))) \<and>
   status_code (fst (get_product dbh product_id)) \<in> {200, 400, 404, 500, 503}"
proof (intro conjI impI)
  assume "dbh = None"
  then show "fst (get_product dbh product_id) = Inl (HTTPException 503 ''Database unavailable'')"
    using get_product_None by simp
next
  assume "dbh = Some s \<and> ObjectId product_id = None"
  then have "dbh = Some s" "ObjectId product_id = None" by simp_all
  then show "fst (get_product dbh product_id) = Inl (HTTPException 400 ''Invalid product id'')"
    using get_product_malformed by simp
next
  assume "dbh = Some s \<and> ObjectId product_id = Some i \<and> find_one s i = Inl e"
  then have f: "dbh = Some s" "find_one s i = Inl e" "ObjectId product_id = Some i"
    by blast+
  show "fst (get_product dbh product_id) = Inl (Unhandled e)"
    unfolding f(1) using f(2,3) by (rule get_product_raises)
next
  assume "dbh = Some s \<and> ObjectId product_id = Some i \<and> \<not> reachable s"
  then have f: "dbh = Some s" "\<not> reachable s" "ObjectId product_id = Some i"
    by blast+
  show "fst (get_product dbh product_id) = Inl (Unhandled ServerSelectionTimeoutError)"
    unfolding f(1) using f(2,3) by (rule get_product_unreachable)
next
  assume "dbh = Some s \<and> ObjectId product_id = Some i \<and> reachable s \<and>
    i \<notin> fst ` set (product s)"
  then have f: "dbh = Some s" "reachable s" "ObjectId product_id = Some i"
      "i \<notin> fst ` set (product s)"
    by blast+
  show "fst (get_product dbh product_id) = Inl (HTTPException 404 ''Product not found'')"
    unfolding f(1) using f(2-4) by (rule get_product_not_found)
next
  assume "dbh = Some s \<and> ObjectId product_id = Some i \<and> reachable s \<and>
    i \<in> fst ` set (product s)"
  then have f: "dbh = Some s" "reachable s" "ObjectId product_id = Some i"
      "i \<in> fst ` set (product s)"
    by blast+
  show "\<exists>d. List.find (\<lambda>doc. fst doc = i) (product s) = Some (i, d) \<and>
      (product_shaped d \<longrightarrow>
         (\<exists>p. fst (get_product dbh product_id) = Inr p \<and> reads_as d p \<and> pid p = str_oid i)) \<and>
      (\<not> product_shaped d \<longrightarrow>
         (\<exists>fs. fs \<noteq> [] \<and>
            fst (get_product dbh product_id) = Inl (Unhandled (ValidationError fs))))"
    unfolding f(1) using f(2-4) by (rule get_product_found)
next
  show "status_code (fst (get_product dbh product_id)) \<in> {200, 400, 404, 500, 503}"
    by (rule get_product_codes)
qed

lemma short_id_fresh: "replicate 10 0 @ [2] \<notin> fst ` set (product shop)"
  by (simp add: shop_fields sample_oid_def)

lemma find_radio:
  "List.find (\<lambda>doc. fst doc = sample_oid 2) (product shop) = Some (sample_oid 2, d) \<Longrightarrow> d = radio"
  by (simp add: shop_fields sample_oid_def)

theorem get_product_status_witness:
  "fst (get_product None ''000000000000000000000002'') =
     Inl (HTTPException 503 ''Database unavailable'') \<and>
   fst (get_product (Some shop) ''no-such-id'') = Inl (HTTPException 400 ''Invalid product id'') \<and>
   fst (get_product (Some down_shop) ''000000000000000000000002'') =
     Inl (Unhandled ServerSelectionTimeoutError) \<and>
   fst (get_product (Some shop) ''000000000000000000000003'') =
     Inl (HTTPException 404 ''Product not found'') \<and>
   fst (get_product (Some shop) ''0000000000000000000002  '') =
     Inl (HTTPException 404 ''Product not found'') \<and>
   (\<exists>p. fst (get_product (Some shop) ''000000000000000000000002'') = Inr p \<and>
      reads_as radio p \<and> pid p = ''000000000000000000000002'')"
proof -
  have "fst (get_product None ''000000000000000000000002'') =
      Inl (HTTPException 503 ''Database unavailable'')"
    using get_product_status [of None "''000000000000000000000002''" shop "sample_oid 2"]
    by blast
  moreover
  have "fst (get_product (Some shop) ''no-such-id'') = Inl (HTTPException 400 ''Invalid product id'')"
    using get_product_status [of "Some shop" "''no-such-id''" shop "sample_oid 2"] ObjectId_bad
    by blast
  moreover
  have "fst (get_product (Some down_shop) ''000000000000000000000002'') =
      Inl (Unhandled ServerSelectionTimeoutError)"
    using get_product_status [of "Some down_shop" "''000000000000000000000002''" down_shop
        "sample_oid 2"] ObjectId_2 down_shop_unreachable
    by blast
  moreover
  have "fst (get_product (Some shop) ''000000000000000000000003'') =
      Inl (HTTPException 404 ''Product not found'')"
    using get_product_status [of "Some shop" "''000000000000000000000003''" shop "sample_oid 3"]
      ObjectId_3 shop_ids(1) shop_fields(1)
    by blast
  moreover
  have "fst (get_product (Some shop) ''0000000000000000000002  '') =
      Inl (HTTPException 404 ''Product not found'')"
    using get_product_status [of "Some shop" "''0000000000000000000002  ''" shop
        "replicate 10 0 @ [2]"] ObjectId_spaced short_id_fresh shop_fields(1)
    by blast
  moreover
  have "\<exists>p. fst (get_product (Some shop) ''000000000000000000000002'') = Inr p \<and>
      reads_as radio p \<and> pid p = ''000000000000000000000002''"
  proof -
    obtain d where d: "List.find (\<lambda>doc. fst doc = sample_oid 2) (product shop) =
          Some (sample_oid 2, d)"
        "product_shaped d \<longrightarrow>
           (\<exists>p. fst (get_product (Some shop) ''000000000000000000000002'') = Inr p \<and>
                reads_as d p \<and> pid p = str_oid (sample_oid 2))"
      using get_product_status [of "Some shop" "''000000000000000000000002''" shop "sample_oid 2"]
        ObjectId_2 shop_ids(2) shop_fields(1)
      by blast
    from d(1) have "d = radio" by (rule find_radio)
    with d(2) radio_shaped show ?thesis
      by (simp add: str_oid_2)
  qed
  ultimately show ?thesis by blast
qed

text \<open>
  The claim as stated leaves four answers: 503, 400, 404 and a Product. In the store
  \<open>odd_shop\<close>, which is configured and answers, the document with the identifier
  \<^verbatim>\<open>000000000000000000000001\<close> exists and has no price: the answer is none of the four,
  it is the status 500. So it is for the store \<open>down_shop\<close>, whose server does not answer.
\<close>

theorem get_product_server_error:
  "ObjectId ''000000000000000000000001'' = Some (sample_oid 1) \<and>
   sample_oid 1 \<in> fst ` set (product odd_shop) \<and>
   fst (get_product (Some odd_shop) ''000000000000000000000001'') =
     Inl (Unhandled (ValidationError [''price''])) \<and>
   status_code (fst (get_product (Some odd_shop) ''000000000000000000000001'')) = 500 \<and>
   status_code (fst (get_product (Some down_shop) ''000000000000000000000002'')) = 500"
proof -
  have 1: "fst (get_product (Some odd_shop) ''000000000000000000000001'') =
      Inl (Unhandled (ValidationError [''price'']))"
    by (simp add: get_product_def ObjectId_1 find_one_def odd_shop_def serialize_product_def
        ProductOut_validate_def ProductIn_validate_def ProductIn_errors_def unpriced_def)
  have 2: "status_code (fst (get_product (Some down_shop) ''000000000000000000000002'')) = 500"
    by (simp add: get_product_def ObjectId_2 find_one_def down_shop_def)
  show ?thesis
    using 1 2 ObjectId_1 by (simp add: odd_shop_fields)
qed

subsection \<open>Creating a product\<close>

text \<open>
  Claim C4, as amended. For every create payload with \<^verbatim>\<open>price < 0\<close>,
  \<^verbatim>\<open>POST /api/products\<close> fails the validation of the request body: the answer has
  status 422 (not 400), it names the field \<^verbatim>\<open>price\<close> among the rejected fields, and no
  document is inserted: the store is unchanged.
\<close>

theorem create_negative_price_rejected:
  assumes "d_price body = Val p" "p < 0"
  shows "create_product dbh i body = (Inl (RequestValidationError (ProductIn_errors body)), dbh) \<and>
    ''price'' \<in> set (ProductIn_errors body) \<and>
    status_code (fst (create_product dbh i body)) = 422"
proof -
  have n: "price_ge0 (d_price body) = None"
    using assms by simp
  then have "create_product dbh i body = (Inl (RequestValidationError (ProductIn_errors body)), dbh)"
    by (simp add: create_product_invalid_body ProductIn_validate_price)
  with n show ?thesis
    by (simp add: price_in_errors)
qed

lemma free_earbuds_errors: "ProductIn_errors (earbuds\<lparr>d_price := Val (- 1)\<rparr>) = [''price'']"
  by (simp add: ProductIn_errors_def earbuds_def)

theorem create_negative_price_rejected_witness:
  "create_product (Some shop) (sample_oid 3) (earbuds\<lparr>d_price := Val (- 1)\<rparr>) =
     (Inl (RequestValidationError [''price'']), Some shop) \<and>
   status_code (fst (create_product (Some shop) (sample_oid 3) (earbuds\<lparr>d_price := Val (- 1)\<rparr>))) = 422"
  using create_negative_price_rejected [of "earbuds\<lparr>d_price := Val (- 1)\<rparr>" "- 1" "Some shop" "sample_oid 3"]
  by (simp add: free_earbuds_errors)

text \<open>
  The claim as stated gives the status as 400. For the payload of the Earbuds with the
  price -1 the status is not 400.
\<close>

theorem create_negative_price_not_400:
  "status_code (fst (create_product (Some shop) (sample_oid 3) (earbuds\<lparr>d_price := Val (- 1)\<rparr>))) \<noteq> 400"
proof -
  have "price_ge0 (d_price (earbuds\<lparr>d_price := Val (- 1)\<rparr>)) = None"
    by simp
  then have "create_product (Some shop) (sample_oid 3) (earbuds\<lparr>d_price := Val (- 1)\<rparr>) =
      (Inl (RequestValidationError (ProductIn_errors (earbuds\<lparr>d_price := Val (- 1)\<rparr>))), Some shop)"
    by (simp add: create_product_invalid_body ProductIn_validate_price)
  then show ?thesis by simp
qed

lemma empty_not_in_errors:
  "(d_title body = Val [] \<longrightarrow> ''title'' \<notin> set (ProductIn_errors body)) \<and>
   (d_category body = Val [] \<longrightarrow> ''category'' \<notin> set (ProductIn_errors body))"
  by (simp add: ProductIn_errors_def)

lemma create_product_empty_rejected:
  assumes "d_title body = Val [] \<or> d_category body = Val []"
  shows "(\<forall>fs. ProductIn_validate body = Inl fs \<longrightarrow>
            create_product dbh i body = (Inl (RequestValidationError fs), dbh) \<and>
            fs = ProductIn_errors body \<and> fs \<noteq> [] \<and>
            (d_title body = Val [] \<longrightarrow> ''title'' \<notin> set fs) \<and>
            (d_category body = Val [] \<longrightarrow> ''category'' \<notin> set fs)) \<and>
         (\<forall>v. ProductIn_validate body = Inr v \<longrightarrow>
            create_product dbh i body =
              (Inl (Unhandled (ValidationError
                 [if d_title body = Val [] then ''title'' else ''category''])), dbh)) \<and>
         (\<exists>e. create_product dbh i body = (Inl e, dbh) \<and> validation_fields e \<noteq> [])"
proof -
  have 1: "create_product dbh i body = (Inl (RequestValidationError fs), dbh) \<and>
      fs = ProductIn_errors body \<and> fs \<noteq> [] \<and>
      (d_title body = Val [] \<longrightarrow> ''title'' \<notin> set fs) \<and>
      (d_category body = Val [] \<longrightarrow> ''category'' \<notin> set fs)"
    if l: "ProductIn_validate body = Inl fs" for fs
  proof -
    from ProductIn_validate_Inl [OF l] have fs: "fs = ProductIn_errors body" "fs \<noteq> []"
      by blast+
    show ?thesis
      using create_product_invalid_body [OF l] fs(2) empty_not_in_errors [of body]
      unfolding fs(1) [symmetric] by blast
  qed
  have 2: "create_product dbh i body =
      (Inl (Unhandled (ValidationError [if d_title body = Val [] then ''title'' else ''category''])), dbh)"
    if v: "ProductIn_validate body = Inr v" for v
  proof -
    from ProductIn_validate_Inr [OF v] have f: "d_title body = Val (title v)"
        "d_category body = Val (category v)"
      by simp_all
    with assms have e: "title v = [] \<or> category v = []" by auto
    have "ProductSchema (model_dump v) =
        Inl (ValidationError [if title v = [] then ''title'' else ''category''])"
      using e by (auto simp: ProductSchema_model_dump [OF v])
    then show ?thesis
      using f by (simp add: create_product_schema_rejects [OF v])
  qed
  have 3: "\<exists>e. create_product dbh i body = (Inl e, dbh) \<and> validation_fields e \<noteq> []"
  proof (cases "ProductIn_validate body")
    case (Inl fs)
    from 1 [OF Inl] show ?thesis by auto
  next
    case (Inr v)
    from 2 [OF Inr] show ?thesis by auto
  qed
  from 1 2 3 show ?thesis by blast
qed

lemma untitled_valid: "ProductIn_validate (earbuds\<lparr>d_title := Val []\<rparr>) =
    Inr \<lparr>title = [], description = None, price = 4999 / 100, category = ''Audio'',
         in_stock = True, image = None\<rparr>"
  by (simp add: ProductIn_validate_def earbuds_def)

lemma untitled_free_invalid:
  "ProductIn_validate (earbuds\<lparr>d_title := Val [], d_price := Val (- 1)\<rparr>) = Inl [''price'']"
  by (simp add: ProductIn_validate_def ProductIn_errors_def earbuds_def)

text \<open>
  Claim C5, as amended. For every create payload in which \<^verbatim>\<open>title\<close> or \<^verbatim>\<open>category\<close> is
  an empty string, the creation fails and nothing is inserted. The request model
  \<^verbatim>\<open>ProductIn\<close> itself accepts an empty string. When the payload passes \<^verbatim>\<open>ProductIn\<close>,
  the schema fails with a \<^verbatim>\<open>ValidationError\<close> that names the first offending field:
  \<^verbatim>\<open>title\<close> if the title is empty and \<^verbatim>\<open>category\<close> otherwise; the schema accepts
  \<^verbatim>\<open>title\<close> and \<^verbatim>\<open>category\<close> only when they are non-empty strings. When the payload
  fails \<^verbatim>\<open>ProductIn\<close> for another field, the schema is not reached: the error lists the
  fields that \<^verbatim>\<open>ProductIn\<close> rejects, and the field with the empty string is not among
  them.
\<close>

theorem empty_title_or_category_rejected:
  "(ProductSchema d = Inr () \<longrightarrow> nonempty_str (d_title d) \<and> nonempty_str (d_category d)) \<and>
   (d_title body = Val [] \<or> d_category body = Val [] \<longrightarrow>
      (\<forall>fs. ProductIn_validate body = Inl fs \<longrightarrow>
         create_product dbh i body = (Inl (RequestValidationError fs), dbh) \<and>
         fs = ProductIn_errors body \<and> fs \<noteq> [] \<and>
         (d_title body = Val [] \<longrightarrow> ''title'' \<notin> set fs) \<and>
         (d_category body = Val [] \<longrightarrow> ''category'' \<notin> set fs)) \<and>
      (\<forall>v. ProductIn_validate body = Inr v \<longrightarrow>
         create_product dbh i body =
           (Inl (Unhandled (ValidationError
              [if d_title body = Val [] then ''title'' else ''category''])), dbh)) \<and>
      (\<exists>e. create_product dbh i body = (Inl e, dbh) \<and> validation_fields e \<noteq> []))"
proof (intro conjI impI)
  assume "ProductSchema d = Inr ()"
  then show "nonempty_str (d_title d)" "nonempty_str (d_category d)"
    by (simp_all add: ProductSchema_def split: if_splits)
next
  assume a: "d_title body = Val [] \<or> d_category body = Val []"
  show "\<forall>fs. ProductIn_validate body = Inl fs \<longrightarrow>
      create_product dbh i body = (Inl (RequestValidationError fs), dbh) \<and>
      fs = ProductIn_errors body \<and> fs \<noteq> [] \<and>
      (d_title body = Val [] \<longrightarrow> ''title'' \<notin> set fs) \<and>
      (d_category body = Val [] \<longrightarrow> ''category'' \<notin> set fs)"
    using create_product_empty_rejected [OF a] by blast
  show "\<forall>v. ProductIn_validate body = Inr v \<longrightarrow>
      create_product dbh i body =
        (Inl (Unhandled (ValidationError
           [if d_title body = Val [] then ''title'' else ''category''])), dbh)"
    using create_product_empty_rejected [OF a] by blast
  show "\<exists>e. create_product dbh i body = (Inl e, dbh) \<and> validation_fields e \<noteq> []"
    using create_product_empty_rejected [OF a] by blast
qed

theorem empty_title_or_category_rejected_witness:
  "create_product (Some shop) (sample_oid 3) (earbuds\<lparr>d_title := Val []\<rparr>) =
     (Inl (Unhandled (ValidationError [''title''])), Some shop) \<and>
   create_product (Some shop) (sample_oid 3) (earbuds\<lparr>d_title := Val [], d_price := Val (- 1)\<rparr>) =
     (Inl (RequestValidationError [''price'']), Some shop)"
proof -
  have "create_product (Some shop) (sample_oid 3) (earbuds\<lparr>d_title := Val []\<rparr>) =
      (Inl (Unhandled (ValidationError [''title''])), Some shop)"
    using empty_title_or_category_rejected [of tv "earbuds\<lparr>d_title := Val []\<rparr>" "Some shop"
        "sample_oid 3"] untitled_valid
    by simp
  moreover
  have "create_product (Some shop) (sample_oid 3)
        (earbuds\<lparr>d_title := Val [], d_price := Val (- 1)\<rparr>) =
      (Inl (RequestValidationError [''price'']), Some shop)"
    using empty_title_or_category_rejected [of tv
        "earbuds\<lparr>d_title := Val [], d_price := Val (- 1)\<rparr>" "Some shop" "sample_oid 3"]
      untitled_free_invalid
    by simp
  ultimately show ?thesis by blast
qed

text \<open>
  The claim as stated has the error name the first offending field, and has the validator
  accept only a non-empty title. \<^verbatim>\<open>ProductIn\<close> accepts the Earbuds with an empty title;
  and for the Earbuds with an empty title and the price -1, the error names \<^verbatim>\<open>price\<close>
  and not \<^verbatim>\<open>title\<close>, the first field that offends.
\<close>

theorem empty_title_not_named:
  "ProductIn_validate (earbuds\<lparr>d_title := Val []\<rparr>) =
     Inr \<lparr>title = [], description = None, price = 4999 / 100, category = ''Audio'',
          in_stock = True, image = None\<rparr> \<and>
   create_product (Some shop) (sample_oid 3) (earbuds\<lparr>d_title := Val [], d_price := Val (- 1)\<rparr>) =
     (Inl (RequestValidationError [''price'']), Some shop) \<and>
   ''title'' \<notin> set (validation_fields (RequestValidationError [''price'']))"
  by (simp add: create_product_def ProductIn_validate_def ProductIn_errors_def earbuds_def)

subsection \<open>Creating a product and fetching it\<close>

lemma find_append_fresh:
  "i \<notin> fst ` set xs \<Longrightarrow> List.find (\<lambda>doc. fst doc = i) (xs @ [(i, d)]) = Some (i, d)"
  by (induction xs) auto

lemma create_document_fresh:
  assumes "reachable s" "i \<notin> fst ` set (product s)"
  shows "create_document (Some s) i d =
    (Inr (str_oid i), Some (s\<lparr>product := product s @ [(i, d)]\<rparr>))"
  using assms by (simp add: create_document_def insert_one_def)

lemma create_product_accepted:
  assumes "ProductIn_validate body = Inr v" "ProductSchema (model_dump v) = Inr ()"
    "reachable s" "i \<notin> fst ` set (product s)"
  shows "create_product (Some s) i body =
    (Inr (str_oid i), Some (s\<lparr>product := product s @ [(i, model_dump v)]\<rparr>))"
  using assms(1,2) create_document_fresh [OF assms(3,4), of "model_dump v"]
  by (simp add: create_product_def)

lemma get_product_last:
  assumes "reachable s" "i \<notin> fst ` set (product s)" "serialize_product (i, d) = Inr out"
    "length i = 12"
  shows "get_product (Some (s\<lparr>product := product s @ [(i, d)]\<rparr>)) (str_oid i) =
    (Inr out, Some (s\<lparr>product := product s @ [(i, d)]\<rparr>))"
proof -
  have "find_one (s\<lparr>product := product s @ [(i, d)]\<rparr>) i = Inr (Some (i, d))"
    using assms(1,2) by (simp add: find_one_def find_append_fresh)
  then show ?thesis
    using assms(3,4) by (simp add: get_product_def ObjectId_str_oid)
qed

lemma entry_opt_dump_opt: "entry_opt (dump_opt x) = x"
  by (cases x) auto

lemma reads_as_model_dump:
  assumes "ProductIn_validate body = Inr v" "reads_as (model_dump v) out"
  shows "reads_as body out"
proof -
  note f = ProductIn_validate_Inr [OF assms(1)]
  from f have b: "bool_default_true (d_in_stock body) = Some (in_stock v)" by blast
  from assms(2) have o: "title v = title out" "description v = description out"
      "price v = price out" "category v = category out" "in_stock out = in_stock v"
      "image v = image out"
    by (simp_all add: reads_as_def model_dump_def entry_opt_dump_opt)
  have "case d_in_stock body of Missing \<Rightarrow> in_stock out | Null \<Rightarrow> False
      | Val x \<Rightarrow> in_stock out = x"
    using b o(5) by (cases "d_in_stock body") auto
  then show ?thesis
    using f o by (simp add: reads_as_def)
qed

lemma model_dump_shaped:
  assumes "ProductIn_validate body = Inr v"
  shows "product_shaped (model_dump v)"
  using ProductIn_validate_Inr [OF assms] by (simp add: product_shaped_def model_dump_def)

text \<open>
  Claim C1. For every valid create payload (a non-empty \<^verbatim>\<open>title\<close> and \<^verbatim>\<open>category\<close>, a
  \<^verbatim>\<open>price\<close> that is not negative, \<^verbatim>\<open>in_stock\<close> a boolean or omitted), on a store that
  answers, \<^verbatim>\<open>POST /api/products\<close> returns the string form of the identifier that the
  driver generated for the new document (twelve bytes, not yet in the collection), and
  \<^verbatim>\<open>GET /api/products/{id}\<close> with that string then returns a Product with that \<^verbatim>\<open>id\<close>
  whose \<^verbatim>\<open>title\<close>, \<^verbatim>\<open>description\<close>, \<^verbatim>\<open>price\<close>, \<^verbatim>\<open>category\<close>, \<^verbatim>\<open>in_stock\<close> and
  \<^verbatim>\<open>image\<close> equal the input: an omitted or null \<^verbatim>\<open>description\<close> or \<^verbatim>\<open>image\<close> reads as
  \<open>None\<close>, and \<^verbatim>\<open>in_stock\<close> is true when it was omitted.
\<close>

theorem create_then_fetch:
  assumes "d_title body = Val t" "t \<noteq> []" "d_price body = Val p" "0 \<le> p"
    "d_category body = Val c" "c \<noteq> []" "d_in_stock body \<noteq> Null"
    "reachable s" "i \<notin> fst ` set (product s)" "length i = 12"
  shows "\<exists>s' out. create_product (Some s) i body = (Inr (str_oid i), Some s') \<and>
    get_product (Some s') (str_oid i) = (Inr out, Some s') \<and>
    pid out = str_oid i \<and> title out = t \<and> description out = entry_opt (d_description body) \<and>
    price out = p \<and> category out = c \<and>
    in_stock out = (case d_in_stock body of Val b \<Rightarrow> b | _ \<Rightarrow> True) \<and>
    image out = entry_opt (d_image body)"
proof -
  obtain b where b: "bool_default_true (d_in_stock body) = Some b"
      "b = (case d_in_stock body of Val x \<Rightarrow> x | _ \<Rightarrow> True)"
    using assms(7) by (cases "d_in_stock body") auto
  let ?v = "\<lparr>title = t, description = entry_opt (d_description body), price = p, category = c,
             in_stock = b, image = entry_opt (d_image body)\<rparr>"
  have v: "ProductIn_validate body = Inr ?v"
    using assms(1,3,4,5) b(1) by (rule ProductIn_validate_ok)
  have "ProductSchema (model_dump ?v) = Inr ()"
    using assms(2,6) by (simp add: ProductSchema_model_dump [OF v])
  with v have cr: "create_product (Some s) i body =
      (Inr (str_oid i), Some (s\<lparr>product := product s @ [(i, model_dump ?v)]\<rparr>))"
    using assms(8,9) by (rule create_product_accepted)
  obtain out where out: "serialize_product (i, model_dump ?v) = Inr out"
      "reads_as (model_dump ?v) out" "pid out = str_oid i"
    using serialize_product_shaped [OF model_dump_shaped [OF v]] by blast
  have g: "get_product (Some (s\<lparr>product := product s @ [(i, model_dump ?v)]\<rparr>)) (str_oid i) =
      (Inr out, Some (s\<lparr>product := product s @ [(i, model_dump ?v)]\<rparr>))"
    using assms(8,9) out(1) assms(10) by (rule get_product_last)
  from out(2) have f: "title out = t" "description out = entry_opt (d_description body)"
      "price out = p" "category out = c" "in_stock out = b" "image out = entry_opt (d_image body)"
    by (simp_all add: reads_as_def model_dump_def entry_opt_dump_opt)
  show ?thesis
    using cr g out(3) f b(2) by blast
qed

lemma earbuds_fields: "d_title earbuds = Val ''Earbuds''" "d_price earbuds = Val (4999 / 100)"
    "d_category earbuds = Val ''Audio''" "d_in_stock earbuds = Missing"
    "d_description earbuds = Missing" "d_image earbuds = Missing"
  by (simp_all add: earbuds_def)

theorem create_then_fetch_witness:
  "\<exists>s' out. create_product (Some shop) (sample_oid 3) earbuds =
      (Inr ''000000000000000000000003'', Some s') \<and>
    get_product (Some s') ''000000000000000000000003'' = (Inr out, Some s') \<and>
    pid out = ''000000000000000000000003'' \<and> title out = ''Earbuds'' \<and> description out = None \<and>
    price out = 4999 / 100 \<and> category out = ''Audio'' \<and> in_stock out \<and> image out = None"
  using create_then_fetch [of earbuds "''Earbuds''" "4999 / 100" "''Audio''" shop "sample_oid 3"]
    earbuds_fields shop_fields(1) shop_ids(1) length_sample_oid [of 3]
  by (simp add: str_oid_3)

subsection \<open>Store errors in the listings\<close>

text \<open>
  Claim C3, as amended. When the store is unavailable (\<^verbatim>\<open>db is None\<close>),
  \<^verbatim>\<open>GET /api/products\<close> and \<^verbatim>\<open>GET /api/categories\<close> answer with an empty list. An
  exception raised by the store call itself is not caught by these handlers: it leaves
  the handler, and the answer is an error; so it is when the server does not answer.
\<close>

theorem listing_store_errors:
  "list_products None q cat lo hi = (Inr [], None) \<and>
   list_categories None = (Inr [], None) \<and>
   (distinct_category s = Inl e \<longrightarrow> list_categories (Some s) = (Inl (Unhandled e), Some s)) \<and>
   (get_documents (Some s) (build_filt q cat lo hi) = Inl e \<longrightarrow>
      list_products (Some s) q cat lo hi = (Inl (Unhandled e), Some s)) \<and>
   (\<not> reachable s \<longrightarrow>
      list_categories (Some s) = (Inl (Unhandled ServerSelectionTimeoutError), Some s) \<and>
      list_products (Some s) q cat lo hi = (Inl (Unhandled ServerSelectionTimeoutError), Some s))"
  by (simp add: list_products_def list_categories_def distinct_category_def get_documents_def
      find_docs_def)

theorem listing_store_errors_witness:
  "list_categories (Some down_shop) = (Inl (Unhandled ServerSelectionTimeoutError), Some down_shop) \<and>
   list_products (Some down_shop) None (Some ''Audio'') (Some 100) None =
     (Inl (Unhandled ServerSelectionTimeoutError), Some down_shop) \<and>
   list_products None None (Some ''Audio'') (Some 100) None = (Inr [], None)"
  using listing_store_errors [of None "Some ''Audio''" "Some 100" None down_shop ServerSelectionTimeoutError]
    down_shop_unreachable
  by simp

text \<open>
  The claim as stated has every store exception in \<^verbatim>\<open>GET /api/categories\<close> turned into
  an empty result. With a server that does not answer, the result is not the empty list
  and the status is 500.
\<close>

theorem list_categories_raises:
  "fst (list_categories (Some down_shop)) \<noteq> Inr [] \<and>
   status_code (fst (list_categories (Some down_shop))) = 500"
  by (simp add: list_categories_def distinct_category_def down_shop_def)

subsection \<open>The categories\<close>






subsection \<open>The filter of the product listing\<close>

text \<open>
  \<open>contains\<close> is substring containment, and on a pattern without operators the
  regular-expression search with option \<^verbatim>\<open>i\<close> is containment up to case.
\<close>

lemma starts_with_iff: "starts_with s x \<longleftrightarrow> (\<exists>suf. s = x @ suf)"
  by (induction s x rule: starts_with.induct) auto

lemma contains_iff: "contains s x \<longleftrightarrow> (\<exists>pre suf. s = pre @ x @ suf)"
proof (induction s)
  case Nil
  show ?case by (cases x) auto
next
  case (Cons c cs)
  show ?case
  proof
    assume "contains (c # cs) x"
    then consider "starts_with (c # cs) x" | "contains cs x" by auto
    then show "\<exists>pre suf. c # cs = pre @ x @ suf"
    proof cases
      case 1
      then obtain suf where "c # cs = [] @ x @ suf" by (auto simp: starts_with_iff)
      then show ?thesis by blast
    next
      case 2
      then obtain pre suf where "cs = pre @ x @ suf" using Cons.IH by blast
      then have "c # cs = (c # pre) @ x @ suf" by simp
      then show ?thesis by blast
    qed
  next
    assume "\<exists>pre suf. c # cs = pre @ x @ suf"
    then obtain pre suf where e: "c # cs = pre @ x @ suf" by blast
    show "contains (c # cs) x"
    proof (cases pre)
      case Nil
      with e have "starts_with (c # cs) x" by (auto simp: starts_with_iff)
      then show ?thesis by simp
    next
      case (Cons p ps)
      with e have "cs = ps @ x @ suf" by simp
      then have "contains cs x" using Cons.IH by blast
      then show ?thesis by simp
    qed
  qed
qed

lemma rx_compile_plain:
  "\<forall>c \<in> set x. plain_char c \<Longrightarrow> rx_compile x = Some (map RxChar x)"
proof (induction x)
  case Nil
  then show ?case by simp
next
  case (Cons c cs)
  then have "plain_char c" by simp
  then have "c \<noteq> CHR ''.''" by (auto simp: plain_char_def rx_operators_def)
  with Cons show ?case by simp
qed

lemma rx_prefix_plain: "rx_prefix (map RxChar x) t = starts_with (map lower t) (map lower x)"
  by (induction "map RxChar x" t arbitrary: x rule: rx_prefix.induct) auto

lemma rx_search_plain: "rx_search (map RxChar x) t = ci_contains t x"
  unfolding ci_contains_def
proof (induction t)
  case Nil
  show ?case by (cases x) auto
next
  case (Cons c cs)
  then show ?case by (simp add: rx_prefix_plain)
qed

lemma regex_i_plain:
  "\<forall>c \<in> set x. plain_char c \<Longrightarrow> regex_i eng x = Some (rx_search (map RxChar x))"
  by (simp add: regex_i_def rx_compile_plain)

lemma match_rest_spec:
  "(match_category (if truthy cat then cat else None) d \<and>
    match_price (if lo \<noteq> None \<or> hi \<noteq> None then Some \<lparr>gte = lo, lte = hi\<rparr> else None) d) =
   spec_filter None (if truthy cat then cat else None) lo hi d"
  by (cases lo; cases hi; cases "d_price d")
    (auto simp: match_category_def match_price_def match_bounds_def spec_filter_def
      split: option.splits)

text \<open>
  Claim C2, as amended. For every combination of the optional parameters, the filter that
  \<^verbatim>\<open>GET /api/products\<close> builds is the conjunction of: a case-insensitive search of the
  regular expression \<^verbatim>\<open>q\<close> in the title when \<^verbatim>\<open>q\<close> is present and not empty (for every
  \<^verbatim>\<open>q\<close> without regular-expression operators this is the case-insensitive substring
  match of the specification, and a \<^verbatim>\<open>q\<close> that the server rejects as a pattern makes the
  query fail); equality on the category when \<^verbatim>\<open>category\<close> is present and not empty; and
  the price within the inclusive bounds that are given. An empty string counts as an
  absent parameter. When no parameter is given the filter holds of every document.
\<close>

theorem build_filt_meaning:
  "(\<not> truthy q \<longrightarrow>
      filt_holds eng (build_filt q cat lo hi) d =
        Some (spec_filter None (if truthy cat then cat else None) lo hi d)) \<and>
   (x \<noteq> [] \<and> regex_i eng x = Some m \<longrightarrow>
      filt_holds eng (build_filt (Some x) cat lo hi) d =
        Some (match_title m d \<and> spec_filter None (if truthy cat then cat else None) lo hi d)) \<and>
   (x \<noteq> [] \<and> regex_i eng x = None \<longrightarrow>
      filt_holds eng (build_filt (Some x) cat lo hi) d = None) \<and>
   (x \<noteq> [] \<and> (\<forall>c \<in> set x. plain_char c) \<longrightarrow>
      filt_holds eng (build_filt (Some x) cat lo hi) d =
        Some (spec_filter (Some x) (if truthy cat then cat else None) lo hi d)) \<and>
   filt_holds eng (build_filt None None None None) d = Some True"
proof (intro conjI impI)
  assume "\<not> truthy q"
  then show "filt_holds eng (build_filt q cat lo hi) d =
      Some (spec_filter None (if truthy cat then cat else None) lo hi d)"
    using match_rest_spec [of cat d lo hi]
    by (simp add: filt_holds_def compile_filt_def build_filt_def)
next
  assume "x \<noteq> [] \<and> regex_i eng x = Some m"
  then show "filt_holds eng (build_filt (Some x) cat lo hi) d =
      Some (match_title m d \<and> spec_filter None (if truthy cat then cat else None) lo hi d)"
    using match_rest_spec [of cat d lo hi]
    by (simp add: filt_holds_def compile_filt_def build_filt_def)
next
  assume "x \<noteq> [] \<and> regex_i eng x = None"
  then show "filt_holds eng (build_filt (Some x) cat lo hi) d = None"
    by (simp add: filt_holds_def compile_filt_def build_filt_def)
next
  assume a: "x \<noteq> [] \<and> (\<forall>c \<in> set x. plain_char c)"
  then have r: "regex_i eng x = Some (rx_search (map RxChar x))"
    by (simp add: regex_i_plain)
  have "(match_title (rx_search (map RxChar x)) d \<and>
      spec_filter None (if truthy cat then cat else None) lo hi d) =
      spec_filter (Some x) (if truthy cat then cat else None) lo hi d"
    by (cases "d_title d") (simp_all add: match_title_def spec_filter_def rx_search_plain)
  then show "filt_holds eng (build_filt (Some x) cat lo hi) d =
      Some (spec_filter (Some x) (if truthy cat then cat else None) lo hi d)"
    using a r match_rest_spec [of cat d lo hi]
    by (simp add: filt_holds_def compile_filt_def build_filt_def)
next
  show "filt_holds eng (build_filt None None None None) d = Some True"
    by (simp add: filt_holds_def compile_filt_def build_filt_def match_category_def
        match_price_def)
qed

lemma plain_tv: "\<forall>c \<in> set ''tv''. plain_char c"
  by (simp add: plain_char_def rx_operators_def)

lemma spec_filter_tv: "spec_filter (Some ''tv'') (Some ''TVs'') (Some 100) None tv"
  by (simp add: spec_filter_def ci_contains_def lower_def tv_def)

lemma plain_e_acute: "\<forall>c \<in> set [CHR 0xE9]. plain_char c"
  by (simp add: plain_char_def rx_operators_def)

lemma spec_filter_e_acute:
  "spec_filter (Some [CHR 0xE9]) None None None
     (tv\<lparr>d_title := Val [CHR ''C'', CHR ''A'', CHR ''F'', CHR 0xC9]\<rparr>)"
  by (simp add: spec_filter_def ci_contains_def lower_def)

theorem build_filt_meaning_witness:
  "filt_holds no_engine (build_filt (Some ''tv'') (Some ''TVs'') (Some 100) None) tv = Some True \<and>
   filt_holds no_engine (build_filt (Some []) (Some ''TVs'') (Some 100) None) tv =
     Some (spec_filter None (Some ''TVs'') (Some 100) None tv) \<and>
   filt_holds no_engine (build_filt (Some [CHR 0xE9]) None None None)
     (tv\<lparr>d_title := Val [CHR ''C'', CHR ''A'', CHR ''F'', CHR 0xC9]\<rparr>) = Some True"
proof -
  have "filt_holds no_engine (build_filt (Some ''tv'') (Some ''TVs'') (Some 100) None) tv = Some True \<and>
      filt_holds no_engine (build_filt (Some []) (Some ''TVs'') (Some 100) None) tv =
        Some (spec_filter None (Some ''TVs'') (Some 100) None tv)"
    using build_filt_meaning [of "Some []" no_engine "Some ''TVs''" "Some 100" None tv "''tv''"
        "\<lambda>t. True"] plain_tv spec_filter_tv
    by simp
  moreover
  have "filt_holds no_engine (build_filt (Some [CHR 0xE9]) None None None)
      (tv\<lparr>d_title := Val [CHR ''C'', CHR ''A'', CHR ''F'', CHR 0xC9]\<rparr>) = Some True"
    using build_filt_meaning [of None no_engine None None None
        "tv\<lparr>d_title := Val [CHR ''C'', CHR ''A'', CHR ''F'', CHR 0xC9]\<rparr>" "[CHR 0xE9]"
        "\<lambda>t. True"] plain_e_acute spec_filter_e_acute
    by simp
  ultimately show ?thesis by blast
qed

text \<open>
  The claim as stated has equality on the category whenever \<^verbatim>\<open>category\<close> is present, and
  a substring match on the title whenever \<^verbatim>\<open>q\<close> is present. With \<^verbatim>\<open>category=""\<close> the
  filter that is built holds of the Radio, whose category is not empty; with \<^verbatim>\<open>q="."\<close>
  it holds of the TV, whose title has no full stop in it.
\<close>

theorem build_filt_not_spec_filter:
  "filt_holds no_engine (build_filt None (Some []) None None) radio = Some True \<and>
   \<not> spec_filter None (Some []) None None radio \<and>
   filt_holds no_engine (build_filt (Some ''.'') None None None) tv = Some True \<and>
   \<not> spec_filter (Some ''.'') None None None tv"
  by (simp add: filt_holds_def compile_filt_def build_filt_def match_category_def match_price_def
      match_title_def regex_i_def spec_filter_def ci_contains_def lower_def tv_def radio_def)

subsection \<open>Seeding the store\<close>

lemma insert_samples_fresh:
  assumes "reachable s" "distinct (map gen [n..<n + length ss])"
    "\<forall>k \<in> {n..<n + length ss}. gen k \<notin> fst ` set (product s)"
  shows "insert_samples (Some s) gen n ss =
    (Inr (), Some (s\<lparr>product := product s @ zip (map gen [n..<n + length ss]) ss\<rparr>))"
  using assms
proof (induction ss arbitrary: s n)
  case Nil
  then show ?case by simp
next
  case (Cons d ds)
  let ?s = "s\<lparr>product := product s @ [(gen n, d)]\<rparr>"
  have u: "[n..<n + length (d # ds)] = n # [Suc n..<Suc n + length ds]"
    using upt_conv_Cons [of n "Suc (n + length ds)"] by simp
  from Cons.prems(3) have "gen n \<notin> fst ` set (product s)" by simp
  with Cons.prems(1) have c: "create_document (Some s) (gen n) d = (Inr (str_oid (gen n)), Some ?s)"
    by (simp add: create_document_def insert_one_def)
  have r: "reachable ?s" using Cons.prems(1) by simp
  have d: "distinct (map gen [Suc n..<Suc n + length ds])"
    using Cons.prems(2) unfolding u by simp
  have f: "\<forall>k \<in> {Suc n..<Suc n + length ds}. gen k \<notin> fst ` set (product ?s)"
  proof
    fix k assume k: "k \<in> {Suc n..<Suc n + length ds}"
    then have "k \<in> {n..<n + length (d # ds)}" by auto
    with Cons.prems(3) have 1: "gen k \<notin> fst ` set (product s)" by blast
    have "k \<in> set [Suc n..<Suc n + length ds]"
      unfolding set_upt by (rule k)
    then have "gen k \<in> set (map gen [Suc n..<Suc n + length ds])"
      unfolding set_map by (rule imageI)
    moreover have "gen n \<notin> set (map gen [Suc n..<Suc n + length ds])"
      using Cons.prems(2) unfolding u by simp
    ultimately have "gen k \<noteq> gen n" by metis
    with 1 show "gen k \<notin> fst ` set (product ?s)" by simp
  qed
  have "insert_samples (Some ?s) gen (Suc n) ds =
      (Inr (), Some (?s\<lparr>product := product ?s @ zip (map gen [Suc n..<Suc n + length ds]) ds\<rparr>))"
    using r d f by (rule Cons.IH)
  with c show ?case
    unfolding u by simp
qed

lemma serialize_all_shaped:
  assumes "length is = length ds" "\<forall>d \<in> set ds. product_shaped d"
  shows "\<exists>ps. serialize_all (zip is ds) = Inr ps \<and> list_all2 reads_as ds ps \<and>
    map pid ps = map str_oid is"
  using assms
proof (induction "is" ds rule: list_induct2)
  case Nil
  then show ?case by simp
next
  case (Cons i "is" d ds)
  then obtain ps where ps: "serialize_all (zip is ds) = Inr ps" "list_all2 reads_as ds ps"
      "map pid ps = map str_oid is"
    by auto
  from Cons.prems have "product_shaped d" by simp
  then obtain p where p: "serialize_product (i, d) = Inr p" "reads_as d p" "pid p = str_oid i"
    using serialize_product_shaped by blast
  have "serialize_all (zip (i # is) (d # ds)) = Inr (p # ps)"
    using p(1) ps(1) by simp
  with p(2,3) ps(2,3) show ?case by simp
qed

lemma list_products_all:
  assumes "reachable s"
  shows "list_products (Some s) None None None None =
    (case serialize_all (product s) of Inl e \<Rightarrow> (Inl (Unhandled e), Some s)
     | Inr ps \<Rightarrow> (Inr ps, Some s))"
  using assms
  by (simp add: list_products_def get_documents_def find_docs_def build_filt_def
      compile_filt_def match_category_def match_price_def)

lemma samples_shaped: "\<forall>d \<in> set samples. product_shaped d"
  by (simp add: samples_def product_shaped_def)

lemma length_samples: "length samples = 4"
  by (simp add: samples_def)

lemma seed_products_returns: "fst (seed_products dbh gen) = Inr ()"
  by (simp add: seed_products_def split: option.splits prod.splits sum.splits)

lemma seed_products_skips:
  "dbh = None \<or> (\<exists>s. dbh = Some s \<and> (\<not> reachable s \<or> product s \<noteq> [])) \<Longrightarrow>
   snd (seed_products dbh gen) = dbh"
  by (auto simp: seed_products_def seed_try_def count_documents_def)

lemma seed_products_empty:
  assumes "reachable s" "product s = []" "distinct (map gen [0..<4])"
  shows "seed_products (Some s) gen =
    (Inr (), Some (s\<lparr>product := zip (map gen [0..<4]) samples\<rparr>))"
proof -
  have "insert_samples (Some s) gen 0 samples =
      (Inr (), Some (s\<lparr>product := product s @ zip (map gen [0..<0 + length samples]) samples\<rparr>))"
    using assms by (intro insert_samples_fresh) (simp_all add: length_samples)
  then show ?thesis
    using assms(1,2)
    by (simp add: seed_products_def seed_try_def count_documents_def length_samples)
qed

lemma list_products_seeded:
  assumes "reachable s"
  shows "\<exists>ps. list_products (Some (s\<lparr>product := zip (map gen [0..<4]) samples\<rparr>))
        None None None None =
      (Inr ps, Some (s\<lparr>product := zip (map gen [0..<4]) samples\<rparr>)) \<and>
    list_all2 reads_as samples ps \<and> map pid ps = map (\<lambda>n. str_oid (gen n)) [0..<4]"
proof -
  have "length (map gen [0..<4]) = length samples"
    by (simp add: length_samples)
  then obtain ps where ps: "serialize_all (zip (map gen [0..<4]) samples) = Inr ps"
      "list_all2 reads_as samples ps" "map pid ps = map str_oid (map gen [0..<4])"
    using serialize_all_shaped [OF _ samples_shaped] by blast
  have "list_products (Some (s\<lparr>product := zip (map gen [0..<4]) samples\<rparr>)) None None None None =
      (Inr ps, Some (s\<lparr>product := zip (map gen [0..<4]) samples\<rparr>))"
    using assms ps(1) by (simp add: list_products_all)
  moreover have "map pid ps = map (\<lambda>n. str_oid (gen n)) [0..<4]"
    using ps(3) by simp
  ultimately show ?thesis
    using ps(2) by blast
qed

text \<open>
  Claim C7. \<^verbatim>\<open>seed_products\<close> always returns normally: every exception of the store is
  swallowed. It leaves the store as it is when the store is not configured, when the
  server does not answer, and when the collection is not empty. When the collection of a
  store that answers is empty (the count is 0), and the driver generates four distinct
  identifiers, the collection becomes exactly the four sample products, in their order;
  \<^verbatim>\<open>GET /api/products\<close> then returns four products that read as the samples, in that
  order, with the generated identifiers. The samples are Smartphone X200 at 699 in
  Phones, Noise-Canceling Headphones at 199 in Audio, 4K Ultra HD TV 55" at 499 in TVs
  and Gaming Laptop G15 at 1499 in Computers.
\<close>

theorem seed_products_spec:
  "fst (seed_products dbh gen) = Inr () \<and>
   (dbh = None \<or> (\<exists>s. dbh = Some s \<and> (\<not> reachable s \<or> product s \<noteq> [])) \<longrightarrow>
      snd (seed_products dbh gen) = dbh) \<and>
   (reachable s \<and> product s = [] \<and> distinct (map gen [0..<4]) \<longrightarrow>
      snd (seed_products (Some s) gen) = Some (s\<lparr>product := zip (map gen [0..<4]) samples\<rparr>) \<and>
      (\<exists>ps. list_products (snd (seed_products (Some s) gen)) None None None None =
              (Inr ps, snd (seed_products (Some s) gen)) \<and>
            list_all2 reads_as samples ps \<and>
            map pid ps = map (\<lambda>n. str_oid (gen n)) [0..<4])) \<and>
   map (\<lambda>d. (d_title d, d_price d, d_category d)) samples =
     [(Val ''Smartphone X200'', Val 699, Val ''Phones''),
      (Val ''Noise-Canceling Headphones'', Val 199, Val ''Audio''),
      (Val (''4K Ultra HD TV 55'' @ [CHR 0x22]), Val 499, Val ''TVs''),
      (Val ''Gaming Laptop G15'', Val 1499, Val ''Computers'')]"
proof (intro conjI impI)
  show "fst (seed_products dbh gen) = Inr ()"
    by (rule seed_products_returns)
next
  assume "dbh = None \<or> (\<exists>s. dbh = Some s \<and> (\<not> reachable s \<or> product s \<noteq> []))"
  then show "snd (seed_products dbh gen) = dbh"
    by (rule seed_products_skips)
next
  assume a: "reachable s \<and> product s = [] \<and> distinct (map gen [0..<4])"
  then have e: "seed_products (Some s) gen =
      (Inr (), Some (s\<lparr>product := zip (map gen [0..<4]) samples\<rparr>))"
    by (intro seed_products_empty) blast+
  then show "snd (seed_products (Some s) gen) =
      Some (s\<lparr>product := zip (map gen [0..<4]) samples\<rparr>)"
    by simp
  from a have "reachable s" by blast
  then show "\<exists>ps. list_products (snd (seed_products (Some s) gen)) None None None None =
        (Inr ps, snd (seed_products (Some s) gen)) \<and>
      list_all2 reads_as samples ps \<and> map pid ps = map (\<lambda>n. str_oid (gen n)) [0..<4]"
    unfolding e snd_conv by (rule list_products_seeded)
next
  show "map (\<lambda>d. (d_title d, d_price d, d_category d)) samples =
     [(Val ''Smartphone X200'', Val 699, Val ''Phones''),
      (Val ''Noise-Canceling Headphones'', Val 199, Val ''Audio''),
      (Val (''4K Ultra HD TV 55'' @ [CHR 0x22]), Val 499, Val ''TVs''),
      (Val ''Gaming Laptop G15'', Val 1499, Val ''Computers'')]"
    by (simp add: samples_def)
qed

lemma sample_oid_distinct: "distinct (map sample_oid [0..<4])"
  by code_simp

lemma empty_shop_fields: "reachable empty_shop" "product empty_shop = []"
  by (simp_all add: empty_shop_def)

lemma shop_not_empty: "product shop \<noteq> []"
  by (simp add: shop_def)

theorem seed_products_spec_witness:
  "snd (seed_products (Some empty_shop) sample_oid) =
     Some (empty_shop\<lparr>product := zip (map sample_oid [0..<4]) samples\<rparr>) \<and>
   (\<exists>ps. list_products (snd (seed_products (Some empty_shop) sample_oid)) None None None None =
           (Inr ps, snd (seed_products (Some empty_shop) sample_oid)) \<and>
         list_all2 reads_as samples ps \<and>
         map pid ps = map (\<lambda>n. str_oid (sample_oid n)) [0..<4]) \<and>
   seed_products (Some shop) sample_oid = (Inr (), Some shop) \<and>
   seed_products (Some down_shop) sample_oid = (Inr (), Some down_shop)"
proof -
  have "snd (seed_products (Some shop) sample_oid) = Some shop"
    using seed_products_spec [of "Some shop" sample_oid empty_shop] shop_not_empty by blast
  moreover have "fst (seed_products (Some shop) sample_oid) = Inr ()"
    using seed_products_spec [of "Some shop" sample_oid empty_shop] by blast
  ultimately have 1: "seed_products (Some shop) sample_oid = (Inr (), Some shop)"
    by (simp add: prod_eq_iff)
  have "snd (seed_products (Some down_shop) sample_oid) = Some down_shop"
    using seed_products_spec [of "Some down_shop" sample_oid empty_shop] down_shop_unreachable
    by blast
  moreover have "fst (seed_products (Some down_shop) sample_oid) = Inr ()"
    using seed_products_spec [of "Some down_shop" sample_oid empty_shop] by blast
  ultimately have 2: "seed_products (Some down_shop) sample_oid = (Inr (), Some down_shop)"
    by (simp add: prod_eq_iff)
  show ?thesis
    using 1 2 seed_products_spec [of "Some shop" sample_oid empty_shop] sample_oid_distinct
      empty_shop_fields
    by blast
qed

end
